theory Spec2Isabelle
  imports Complex_Main
begin

section \<open>Values, errors and tensors\<close>

text \<open>
  The script works on rank-2 tensors of numbers (a batch of features has shape
  \<open>(batch_size, input_dim)\<close>, a batch of labels \<open>(batch_size, output_dim)\<close>).  Numbers
  are modelled as exact reals.  An arithmetic result that the numerical library would
  deliver as an infinity or a NaN (a logarithm at a non-positive argument, the mean of no
  elements) is the value \<open>NonFinite\<close>; it is absorbing under multiplication,
  subtraction, addition and the division by an element count, as infinities and NaN are
  under those operations.

  The float32 rounding of the program is modelled separately, from section
  \<open>Float32 arithmetic\<close> on, for the properties that depend on it.
\<close>

datatype scalar = Finite real | NonFinite

datatype error =
    ShapeMismatch
  | KeyError string
  | TypeError
  | IndexError
  | AttributeError string
  | GradientUnavailable

record 'a tensor =
  shape :: "nat \<times> nat"
  rows :: "'a list list"

definition nrows :: "'a tensor \<Rightarrow> nat" where
  "nrows t = fst (shape t)"

definition ncols :: "'a tensor \<Rightarrow> nat" where
  "ncols t = snd (shape t)"

text \<open>A tensor is well shaped when its rows agree with its declared shape.\<close>

definition well_shaped :: "'a tensor \<Rightarrow> bool" where
  "well_shaped t \<longleftrightarrow>
     length (rows t) = nrows t \<and> list_all (\<lambda>r. length r = ncols t) (rows t)"

definition elements :: "'a tensor \<Rightarrow> 'a list" where
  "elements t = concat (rows t)"

subsection \<open>Arithmetic on possibly non-finite scalars\<close>

fun s_mul :: "scalar \<Rightarrow> scalar \<Rightarrow> scalar" where
  "s_mul (Finite a) (Finite b) = Finite (a * b)"
| "s_mul _ _ = NonFinite"

fun s_add :: "scalar \<Rightarrow> scalar \<Rightarrow> scalar" where
  "s_add (Finite a) (Finite b) = Finite (a + b)"
| "s_add _ _ = NonFinite"

fun s_sub :: "scalar \<Rightarrow> scalar \<Rightarrow> scalar" where
  "s_sub (Finite a) (Finite b) = Finite (a - b)"
| "s_sub _ _ = NonFinite"

fun s_neg :: "scalar \<Rightarrow> scalar" where
  "s_neg (Finite a) = Finite (- a)"
| "s_neg NonFinite = NonFinite"

fun s_div_count :: "scalar \<Rightarrow> nat \<Rightarrow> scalar" where
  "s_div_count (Finite a) n = (if n = 0 then NonFinite else Finite (a / real n))"
| "s_div_count NonFinite n = NonFinite"

text \<open>The logarithm: minus infinity at 0 and NaN below 0 are both \<open>NonFinite\<close>.\<close>

definition s_log :: "real \<Rightarrow> scalar" where
  "s_log v = (if 0 < v then Finite (ln v) else NonFinite)"

subsection \<open>Element-wise tensor operations\<close>

definition tmap :: "('a \<Rightarrow> 'b) \<Rightarrow> 'a tensor \<Rightarrow> 'b tensor" where
  "tmap f t = \<lparr>shape = shape t, rows = map (map f) (rows t)\<rparr>"

text \<open>
  Broadcasting of two rank-2 tensors: two dimensions are compatible when they are equal
  or one of them is 1; the dimension of size 1 is stretched.  Incompatible shapes raise.
\<close>

definition bdim :: "nat \<Rightarrow> nat \<Rightarrow> nat option" where
  "bdim m n = (if m = n then Some m else if m = 1 then Some n
               else if n = 1 then Some m else None)"

definition entry :: "'a tensor \<Rightarrow> nat \<Rightarrow> nat \<Rightarrow> 'a" where
  "entry t i j = rows t ! (if nrows t = 1 then 0 else i) ! (if ncols t = 1 then 0 else j)"

definition broadcast2 :: "('a \<Rightarrow> 'b \<Rightarrow> 'c) \<Rightarrow> 'a tensor \<Rightarrow> 'b tensor \<Rightarrow> error + 'c tensor" where
  "broadcast2 f a b =
     (case bdim (nrows a) (nrows b) of
        None \<Rightarrow> Inl ShapeMismatch
      | Some r \<Rightarrow>
          (case bdim (ncols a) (ncols b) of
             None \<Rightarrow> Inl ShapeMismatch
           | Some c \<Rightarrow>
               Inr \<lparr>shape = (r, c),
                    rows = map (\<lambda>i. map (\<lambda>j. f (entry a i j) (entry b i j)) [0..<c]) [0..<r]\<rparr>))"

text \<open>\<open>tf.clip_by_value(t, lo, hi)\<close> is \<open>maximum(minimum(t, hi), lo)\<close>, element by element.\<close>

definition clip :: "real \<Rightarrow> real \<Rightarrow> real \<Rightarrow> real" where
  "clip v lo hi = max (min v hi) lo"

definition clip_by_value :: "real tensor \<Rightarrow> real \<Rightarrow> real \<Rightarrow> real tensor" where
  "clip_by_value t lo hi = tmap (\<lambda>v. clip v lo hi) t"

definition tf_log :: "real tensor \<Rightarrow> scalar tensor" where
  "tf_log t = tmap s_log t"

text \<open>\<open>tf.reduce_mean\<close>: the sum of all elements divided by their number (NaN for none).\<close>

definition s_mean :: "scalar list \<Rightarrow> scalar" where
  "s_mean xs = s_div_count (foldr s_add xs (Finite 0)) (length xs)"

definition reduce_mean :: "scalar tensor \<Rightarrow> scalar" where
  "reduce_mean t = s_mean (elements t)"

section \<open>The loss: \<open>SimpleLoss\<close>\<close>

record SimpleLoss =
  epsilon :: real

definition SimpleLoss_init :: "real \<Rightarrow> SimpleLoss" where
  "SimpleLoss_init eps = \<lparr>epsilon = eps\<rparr>"

definition default_epsilon :: real where
  "default_epsilon = 1 / 10 ^ 7"

text \<open>
  \<open>SimpleLoss.call\<close>.  Its first line rebinds \<open>y_pred\<close> to the clipped predictions;
  the two tensors handed to \<open>tf.math.log\<close> on its second line are
  \<open>y_pred + self.epsilon\<close> and \<open>1 - y_pred + self.epsilon\<close>.
\<close>

definition clipped_pred :: "SimpleLoss \<Rightarrow> real tensor \<Rightarrow> real tensor" where
  "clipped_pred self y_pred = clip_by_value y_pred (epsilon self) (1 - epsilon self)"

definition first_log_argument :: "SimpleLoss \<Rightarrow> real tensor \<Rightarrow> real tensor" where
  "first_log_argument self y_pred = tmap (\<lambda>v. v + epsilon self) (clipped_pred self y_pred)"

definition second_log_argument :: "SimpleLoss \<Rightarrow> real tensor \<Rightarrow> real tensor" where
  "second_log_argument self y_pred =
     tmap (\<lambda>v. 1 - v + epsilon self) (clipped_pred self y_pred)"

text \<open>
  Python reads \<open>- y_true * a - (1 - y_true) * c\<close> as
  \<open>((- y_true) * a) - ((1 - y_true) * c)\<close>; a tensor and a Python number combine
  element by element, two tensors by broadcasting.
\<close>

definition SimpleLoss_call :: "SimpleLoss \<Rightarrow> real tensor \<Rightarrow> real tensor \<Rightarrow> error + scalar" where
  "SimpleLoss_call self y_true y_pred =
     (case broadcast2 (\<lambda>u l. s_mul (Finite u) l)
             (tmap uminus y_true)
             (tf_log (first_log_argument self y_pred)) of
        Inl e \<Rightarrow> Inl e
      | Inr lhs \<Rightarrow>
          (case broadcast2 (\<lambda>u l. s_mul (Finite u) l)
                  (tmap (\<lambda>v. 1 - v) y_true)
                  (tf_log (second_log_argument self y_pred)) of
             Inl e \<Rightarrow> Inl e
           | Inr rhs \<Rightarrow>
               (case broadcast2 s_sub lhs rhs of
                  Inl e \<Rightarrow> Inl e
                | Inr bce \<Rightarrow> Inr (reduce_mean bce))))"

text \<open>
  The closed form the specification gives for one element, and its mean over all
  elements of two tensors.
\<close>

definition bce_element :: "real \<Rightarrow> real \<Rightarrow> real \<Rightarrow> scalar" where
  "bce_element eps y p =
     s_sub (s_neg (s_mul (Finite y) (s_log (clip p eps (1 - eps) + eps))))
           (s_mul (Finite (1 - y)) (s_log (1 - clip p eps (1 - eps) + eps)))"

definition mean_bce :: "real \<Rightarrow> real tensor \<Rightarrow> real tensor \<Rightarrow> scalar" where
  "mean_bce eps y_true y_pred =
     s_mean (map2 (bce_element eps) (elements y_true) (elements y_pred))"

section \<open>The layer: \<open>SimpleLayer\<close>\<close>

text \<open>
  The attributes \<open>w\<close> and \<open>b\<close> exist only once \<open>build\<close> has run; reading one
  before raises \<open>AttributeError\<close>.  The bias is a rank-1 tensor of shape \<open>(units,)\<close>.
\<close>

record SimpleLayer =
  units :: nat
  w :: "real tensor option"
  b :: "real list option"

definition SimpleLayer_init :: "nat \<Rightarrow> SimpleLayer" where
  "SimpleLayer_init n = \<lparr>units = n, w = None, b = None\<rparr>"

text \<open>
  \<open>build\<close>: the weight gets shape \<open>(input_shape[-1], units)\<close>, its entries drawn by the
  \<open>glorot_uniform\<close> initializer (the draw for each position is the parameter
  \<open>glorot\<close>); the bias is \<open>units\<close> zeros.
\<close>

definition SimpleLayer_build ::
    "(nat \<Rightarrow> nat \<Rightarrow> real) \<Rightarrow> SimpleLayer \<Rightarrow> nat list \<Rightarrow> error + SimpleLayer" where
  "SimpleLayer_build glorot self input_shape =
     (if input_shape = [] then Inl IndexError
      else Inr (self\<lparr>
        w := Some \<lparr>shape = (last input_shape, units self),
                   rows = map (\<lambda>i. map (\<lambda>j. glorot i j) [0..<units self])
                            [0..<last input_shape]\<rparr>,
        b := Some (replicate (units self) 0)\<rparr>))"

text \<open>\<open>tf.matmul\<close> of two rank-2 tensors; the inner dimensions must agree.\<close>

definition matmul :: "real tensor \<Rightarrow> real tensor \<Rightarrow> error + real tensor" where
  "matmul a c =
     (if ncols a \<noteq> nrows c then Inl ShapeMismatch
      else Inr \<lparr>shape = (nrows a, ncols c),
                rows = map (\<lambda>i. map (\<lambda>j. sum_list (map (\<lambda>k. rows a ! i ! k * rows c ! k ! j)
                                                   [0..<ncols a]))
                                     [0..<ncols c])
                           [0..<nrows a]\<rparr>)"

definition sigmoid :: "real \<Rightarrow> real" where
  "sigmoid v = 1 / (1 + exp (- v))"

text \<open>A rank-1 tensor of shape \<open>(m,)\<close> broadcasts against a rank-2 tensor as shape \<open>(1, m)\<close>.\<close>

definition as_row :: "'a list \<Rightarrow> 'a tensor" where
  "as_row v = \<lparr>shape = (1, length v), rows = [v]\<rparr>"

definition SimpleLayer_call :: "SimpleLayer \<Rightarrow> real tensor \<Rightarrow> error + real tensor" where
  "SimpleLayer_call self inputs =
     (case w self of
        None \<Rightarrow> Inl (AttributeError ''w'')
      | Some wt \<Rightarrow>
          (case matmul inputs wt of
             Inl e \<Rightarrow> Inl e
           | Inr z \<Rightarrow>
               (case b self of
                  None \<Rightarrow> Inl (AttributeError ''b'')
                | Some bv \<Rightarrow>
                    (case broadcast2 (+) z (as_row bv) of
                       Inl e \<Rightarrow> Inl e
                     | Inr s \<Rightarrow> Inr (tmap sigmoid s)))))"

text \<open>
  The specification's reading of the layer: entry \<open>(i, j)\<close> of the output of shape
  \<open>(N, units)\<close> is the sigmoid of the \<open>i\<close>-th input row times the \<open>j\<close>-th weight column
  plus the \<open>j\<close>-th bias.
\<close>

definition affine_sigmoid ::
    "nat \<Rightarrow> nat \<Rightarrow> nat \<Rightarrow> real tensor \<Rightarrow> real tensor \<Rightarrow> real list \<Rightarrow> real tensor" where
  "affine_sigmoid N d u x wt bv =
     \<lparr>shape = (N, u),
      rows = map (\<lambda>i. map (\<lambda>j. sigmoid ((\<Sum>k<d. rows x ! i ! k * rows wt ! k ! j) + bv ! j))
                           [0..<u])
                 [0..<N]\<rparr>"

section \<open>Standard output\<close>

text \<open>
  One \<open>print\<close> call is one entry of the output: the list of its arguments, which Python
  writes separated by blanks and ended by a newline.
\<close>

datatype printed = Text string | Number int | Value scalar

type_synonym stdout = "printed list list"

section \<open>The callback: \<open>SimpleCallback\<close>\<close>

text \<open>
  \<open>on_batch_end(batch, logs=None)\<close>.  The arguments of \<open>print\<close> are evaluated before
  it is called, so a failing \<open>logs['loss']\<close> raises before anything is written:
  \<open>KeyError\<close> when the mapping has no such key, \<open>TypeError\<close> when \<open>logs\<close> is \<open>None\<close>.
\<close>

definition on_batch_end ::
    "int \<Rightarrow> (string \<rightharpoonup> scalar) option \<Rightarrow> stdout \<Rightarrow> (error + unit) \<times> stdout" where
  "on_batch_end batch logs out =
     (case logs of
        None \<Rightarrow> (Inl TypeError, out)
      | Some d \<Rightarrow>
          (case d ''loss'' of
             None \<Rightarrow> (Inl (KeyError ''loss''), out)
           | Some v \<Rightarrow>
               (Inr (),
                out @ [[Text ''\<newline>End of batch = '', Number batch,
                        Text '', loss = '', Value v]])))"

section \<open>The model: \<open>CustomModel\<close>\<close>

text \<open>
  A metric is an object with a name, an accumulated state and the methods
  \<open>update_state\<close> and \<open>result\<close>.  \<open>update_state\<close> is called either with the loss
  alone or with the pair \<open>(y, y_pred)\<close>; it may raise.
\<close>

datatype update_args = LossValue scalar | LabelsAndPredictions "real tensor" "real tensor"

record 's metric =
  name :: string
  acc :: 's
  update_state :: "update_args \<Rightarrow> 's \<Rightarrow> error + 's"
  result :: "'s \<Rightarrow> scalar"

text \<open>
  The optimizer is an object with a state and the method \<open>apply\<close>, which takes the
  gradients and the trainable variables (here the layer's weight and bias) and gives
  the updated variables and its new state.
\<close>

type_synonym variables = "real tensor \<times> real list"

record 'o optimizer_obj =
  opt_state :: 'o
  apply_gradients :: "variables \<Rightarrow> variables \<Rightarrow> 'o \<Rightarrow> error + (variables \<times> 'o)"

record ('s, 'o) CustomModel =
  layer :: SimpleLayer
  loss_fn :: SimpleLoss
  optimizer :: "'o optimizer_obj"
  metrics :: "'s metric list"

text \<open>
  \<open>self(x, training=...)\<close> runs the model's single layer; \<open>SimpleLayer\<close> does not look
  at the training flag.  \<open>self.compute_loss(y=y, y_pred=y_pred)\<close> applies the compiled loss.
\<close>

definition model_call :: "('s, 'o) CustomModel \<Rightarrow> real tensor \<Rightarrow> bool \<Rightarrow> error + real tensor" where
  "model_call self x training = SimpleLayer_call (layer self) x"

definition compute_loss :: "('s, 'o) CustomModel \<Rightarrow> real tensor \<Rightarrow> real tensor \<Rightarrow> error + scalar" where
  "compute_loss self y y_pred = SimpleLoss_call (loss_fn self) y y_pred"

definition trainable_variables :: "('s, 'o) CustomModel \<Rightarrow> error + variables" where
  "trainable_variables self =
     (case w (layer self) of
        None \<Rightarrow> Inl (AttributeError ''w'')
      | Some wt \<Rightarrow>
          (case b (layer self) of
             None \<Rightarrow> Inl (AttributeError ''b'')
           | Some bv \<Rightarrow> Inr (wt, bv)))"

text \<open>
  The metric loop of \<open>train_step\<close> (lines 35 to 39).  A raising \<open>update_state\<close> ends the
  loop: the metrics before it are updated, the others are not.
\<close>

fun train_update_metrics ::
    "scalar \<Rightarrow> real tensor \<Rightarrow> real tensor \<Rightarrow> 's metric list \<Rightarrow> error option \<times> 's metric list" where
  "train_update_metrics loss y y_pred [] = (None, [])"
| "train_update_metrics loss y y_pred (m # ms) =
     (case (if name m = ''loss'' then update_state m (LossValue loss) (acc m)
            else update_state m (LabelsAndPredictions y y_pred) (acc m)) of
        Inl e \<Rightarrow> (Some e, m # ms)
      | Inr a \<Rightarrow>
          (case train_update_metrics loss y y_pred ms of
             (r, ms') \<Rightarrow> (r, m\<lparr>acc := a\<rparr> # ms')))"

text \<open>The dictionary \<open>{m.name: m.result() for m in self.metrics}\<close>: a later metric of the
  same name overwrites an earlier one.\<close>

fun train_results :: "'s metric list \<Rightarrow> (string \<rightharpoonup> scalar) \<Rightarrow> (string \<rightharpoonup> scalar)" where
  "train_results [] d = d"
| "train_results (m # ms) d = train_results ms (d(name m \<mapsto> result m (acc m)))"

text \<open>
  \<open>train_step\<close>.  \<open>tape.gradient\<close> is the automatic differentiation of the recorded
  forward pass and loss with respect to the trainable variables; it is the parameter
  \<open>tape_gradient\<close>.
\<close>

type_synonym gradient_fn =
  "SimpleLayer \<Rightarrow> SimpleLoss \<Rightarrow> real tensor \<Rightarrow> real tensor \<Rightarrow> error + variables"

definition train_step ::
    "gradient_fn \<Rightarrow> ('s, 'o) CustomModel \<Rightarrow> real tensor \<times> real tensor
      \<Rightarrow> (error + (string \<rightharpoonup> scalar)) \<times> ('s, 'o) CustomModel" where
  "train_step tape_gradient self data =
     (case data of (x, y) \<Rightarrow>
       (case model_call self x True of
          Inl e \<Rightarrow> (Inl e, self)
        | Inr y_pred \<Rightarrow>
       (case compute_loss self y y_pred of
          Inl e \<Rightarrow> (Inl e, self)
        | Inr loss \<Rightarrow>
       (case trainable_variables self of
          Inl e \<Rightarrow> (Inl e, self)
        | Inr trainable_vars \<Rightarrow>
       (case tape_gradient (layer self) (loss_fn self) x y of
          Inl e \<Rightarrow> (Inl e, self)
        | Inr gradients \<Rightarrow>
       (case apply_gradients (optimizer self) gradients trainable_vars
               (opt_state (optimizer self)) of
          Inl e \<Rightarrow> (Inl e, self)
        | Inr ((w', b'), o') \<Rightarrow>
            (let self1 = self\<lparr>layer := (layer self)\<lparr>w := Some w', b := Some b'\<rparr>,
                               optimizer := (optimizer self)\<lparr>opt_state := o'\<rparr>\<rparr> in
             case train_update_metrics loss y y_pred (metrics self1) of
               (Some e, ms) \<Rightarrow> (Inl e, self1\<lparr>metrics := ms\<rparr>)
             | (None, ms) \<Rightarrow>
                 (Inr (train_results ms Map.empty), self1\<lparr>metrics := ms\<rparr>))))))))"

text \<open>The metric loop of \<open>test_step\<close> (lines 49 to 53) and its result dictionary.\<close>

fun test_update_metrics ::
    "scalar \<Rightarrow> real tensor \<Rightarrow> real tensor \<Rightarrow> 's metric list \<Rightarrow> error option \<times> 's metric list" where
  "test_update_metrics loss y y_pred [] = (None, [])"
| "test_update_metrics loss y y_pred (m # ms) =
     (case (if name m = ''loss'' then update_state m (LossValue loss) (acc m)
            else update_state m (LabelsAndPredictions y y_pred) (acc m)) of
        Inl e \<Rightarrow> (Some e, m # ms)
      | Inr a \<Rightarrow>
          (case test_update_metrics loss y y_pred ms of
             (r, ms') \<Rightarrow> (r, m\<lparr>acc := a\<rparr> # ms')))"

fun test_results :: "'s metric list \<Rightarrow> (string \<rightharpoonup> scalar) \<Rightarrow> (string \<rightharpoonup> scalar)" where
  "test_results [] d = d"
| "test_results (m # ms) d = test_results ms (d(name m \<mapsto> result m (acc m)))"

definition test_step ::
    "('s, 'o) CustomModel \<Rightarrow> real tensor \<times> real tensor \<Rightarrow> stdout
      \<Rightarrow> (error + (string \<rightharpoonup> scalar)) \<times> ('s, 'o) CustomModel \<times> stdout" where
  "test_step self data out =
     (let out1 = out @ [[Text ''\<newline>Evalaution starts...'']] in
      case data of (x, y) \<Rightarrow>
       (case model_call self x False of
          Inl e \<Rightarrow> (Inl e, self, out1)
        | Inr y_pred \<Rightarrow>
       (case compute_loss self y y_pred of
          Inl e \<Rightarrow> (Inl e, self, out1)
        | Inr loss \<Rightarrow>
            (case test_update_metrics loss y y_pred (metrics self) of
               (Some e, ms) \<Rightarrow> (Inl e, self\<lparr>metrics := ms\<rparr>, out1)
             | (None, ms) \<Rightarrow>
                 (Inr (test_results ms Map.empty), self\<lparr>metrics := ms\<rparr>, out1)))))"

text \<open>
  The specification's reading of the metric update, common to both steps: each metric
  is fed the loss when it is named \<open>loss\<close> and the pair \<open>(y, y_pred)\<close> otherwise, in the
  order of registration and up to the first \<open>update_state\<close> that raises; the step returns
  the mapping from each metric's name to its current result (the last metric of a name
  deciding).
\<close>

definition feed :: "scalar \<Rightarrow> real tensor \<Rightarrow> real tensor \<Rightarrow> 's metric \<Rightarrow> error + 's metric" where
  "feed loss y y_pred m =
     (case update_state m
             (if name m = ''loss'' then LossValue loss else LabelsAndPredictions y y_pred)
             (acc m) of
        Inl e \<Rightarrow> Inl e
      | Inr a \<Rightarrow> Inr (m\<lparr>acc := a\<rparr>))"

definition feed_metrics ::
    "scalar \<Rightarrow> real tensor \<Rightarrow> real tensor \<Rightarrow> 's metric list \<Rightarrow> error option \<times> 's metric list" where
  "feed_metrics loss y y_pred ms =
     (let rs = map (feed loss y y_pred) ms;
          k = length (takeWhile (\<lambda>r. \<not> isl r) rs) in
      (if k < length ms then Some (projl (rs ! k)) else None,
       map projr (take k rs) @ drop k ms))"

definition name_to_result :: "'s metric list \<Rightarrow> (string \<rightharpoonup> scalar)" where
  "name_to_result ms = map_of (rev (map (\<lambda>m. (name m, result m (acc m))) ms))"

definition step_outcome ::
    "scalar \<Rightarrow> real tensor \<Rightarrow> real tensor \<Rightarrow> 's metric list \<Rightarrow> error + (string \<rightharpoonup> scalar)" where
  "step_outcome loss y y_pred ms =
     (case feed_metrics loss y y_pred ms of
        (Some e, ms') \<Rightarrow> Inl e
      | (None, ms') \<Rightarrow> Inr (name_to_result ms'))"

section \<open>The driver\<close>

text \<open>\<open>tf.round\<close> rounds to the nearest integer, a half to the even neighbour.\<close>

definition tf_round :: "real \<Rightarrow> real" where
  "tf_round v =
     (let f = \<lfloor>v\<rfloor>; r = v - of_int f in
      if r < 1 / 2 then of_int f
      else if 1 / 2 < r then of_int (f + 1)
      else if even f then of_int f else of_int (f + 1))"

text \<open>
  A dataset of slices pairs the rows of two tensors, which must have as many rows;
  \<open>batch n\<close> stacks each run of \<open>n\<close> consecutive examples (the last run may be shorter)
  into a pair of tensors.
\<close>

record dataset =
  widths :: "nat \<times> nat"
  examples :: "(real list \<times> real list) list"

definition from_tensor_slices :: "real tensor \<times> real tensor \<Rightarrow> error + dataset" where
  "from_tensor_slices xy =
     (case xy of (x, y) \<Rightarrow>
        if nrows x \<noteq> nrows y then Inl ShapeMismatch
        else Inr \<lparr>widths = (ncols x, ncols y), examples = zip (rows x) (rows y)\<rparr>)"

function chunks :: "nat \<Rightarrow> 'a list \<Rightarrow> 'a list list" where
  "chunks n xs = (if n = 0 \<or> xs = [] then [] else take n xs # chunks n (drop n xs))"
  by pat_completeness auto
termination
  by (relation "measure (\<lambda>(n, xs). length xs)") auto

declare chunks.simps [simp del]

definition batch :: "nat \<Rightarrow> dataset \<Rightarrow> (real tensor \<times> real tensor) list" where
  "batch n ds =
     map (\<lambda>c. (\<lparr>shape = (length c, fst (widths ds)), rows = map fst c\<rparr>,
                \<lparr>shape = (length c, snd (widths ds)), rows = map snd c\<rparr>))
         (chunks n (examples ds))"

text \<open>
  The random draws of one run, in the order of the script: the two normal draws of the
  training set and the two uniform draws of the test set.
\<close>

record draws =
  normal_x :: "real tensor"
  normal_y :: "real tensor"
  uniform_x_test :: "real tensor"
  uniform_y_test :: "real tensor"

text \<open>
  What the script builds and hands on: the layer \<open>SimpleLayer(1)\<close> called on an input
  of 32 features, the compiled loss \<open>SimpleLoss()\<close> with its default epsilon, and the
  datasets given to \<open>fit\<close> (with the number of epochs and whether the callback is
  attached) and to \<open>evaluate\<close>.
\<close>

record run =
  model_layer :: SimpleLayer
  model_input_dim :: nat
  compiled_loss :: SimpleLoss
  fit_dataset :: "(real tensor \<times> real tensor) list"
  fit_epochs :: nat
  fit_with_callback :: bool
  evaluate_dataset :: "(real tensor \<times> real tensor) list"

definition main :: "draws \<Rightarrow> error + run" where
  "main d =
     (let x = normal_x d;
          y = normal_y d;
          y = tmap tf_round y in
      case from_tensor_slices (x, y) of
        Inl e \<Rightarrow> Inl e
      | Inr ds \<Rightarrow>
          (let ds = batch 256 ds;
               run_with_callback = False;
               x_test = uniform_x_test d;
               y_test = uniform_y_test d;
               y_test = tmap tf_round y_test in
           case from_tensor_slices (x, y) of
             Inl e \<Rightarrow> Inl e
           | Inr t \<Rightarrow>
               Inr \<lparr>model_layer = SimpleLayer_init 1, model_input_dim = 32,
                    compiled_loss = SimpleLoss_init default_epsilon,
                    fit_dataset = ds, fit_epochs = 3,
                    fit_with_callback = run_with_callback,
                    evaluate_dataset = batch 512 t\<rparr>))"

section \<open>Float32 arithmetic\<close>

text \<open>
  The tensors of the script are float32 tensors: \<open>tf.random.normal\<close>,
  \<open>tf.random.uniform\<close> and \<open>add_weight\<close> produce float32 by default, and every
  operation of \<open>SimpleLayer.call\<close> and \<open>SimpleLoss.call\<close> rounds its result to
  float32.  Where a property depends on that rounding, the exact reals of the sections
  above say something else than the program does, so the loss and the layer are modelled
  a second time, on float32 values.

  A float value is a number, one of the two infinities, or NaN.  The sign of a zero is
  not modelled: the logarithm of either zero is \<open>-inf\<close>, and the only divisors of the
  program are an element count and \<open>1 + exp (- z)\<close>.
\<close>

datatype fp = Num real | PInf | NInf | NaN

text \<open>
  Rounding to nearest, ties to even, as IEEE 754 prescribes and the hardware does.
  \<open>round_to p emin emax x\<close> rounds the real \<open>x\<close> to the binary format with \<open>p\<close>
  significant bits and exponents from \<open>emin\<close> to \<open>emax\<close>: the result is the nearest
  multiple of the quantum \<open>2 ^ (e - (p - 1))\<close>, where \<open>e\<close> is the exponent of \<open>x\<close>, not
  below \<open>emin\<close> (below \<open>2 ^ emin\<close> the numbers are subnormal and the quantum stays
  \<open>2 ^ (emin - (p - 1))\<close>); a result of magnitude \<open>2 ^ (emax + 1)\<close> or more is an
  infinity.  \<open>to_f32\<close> is binary32, the float32 of the tensors; \<open>to_f64\<close> is binary64,
  the \<open>float\<close> of Python.
\<close>

definition round_half_even :: "real \<Rightarrow> int" where
  "round_half_even x =
     (let f = \<lfloor>x\<rfloor>; r = x - of_int f in
      if r < 1 / 2 then f
      else if 1 / 2 < r then f + 1
      else if even f then f else f + 1)"

definition pow2 :: "int \<Rightarrow> real" where
  "pow2 k = (if 0 \<le> k then 2 ^ nat k else 1 / 2 ^ nat (- k))"

definition quantum :: "nat \<Rightarrow> int \<Rightarrow> real \<Rightarrow> int" where
  "quantum p emin x = max \<lfloor>log 2 \<bar>x\<bar>\<rfloor> emin - (int p - 1)"

definition round_core :: "nat \<Rightarrow> int \<Rightarrow> real \<Rightarrow> real" where
  "round_core p emin x =
     (if x = 0 then 0
      else of_int (round_half_even (x / pow2 (quantum p emin x))) * pow2 (quantum p emin x))"

definition round_to :: "nat \<Rightarrow> int \<Rightarrow> int \<Rightarrow> real \<Rightarrow> fp" where
  "round_to p emin emax x =
     (let r = round_core p emin x in
      if pow2 (emax + 1) \<le> \<bar>r\<bar> then (if 0 < r then PInf else NInf) else Num r)"

definition to_f32 :: "real \<Rightarrow> fp" where
  "to_f32 = round_to 24 (- 126) 127"


text \<open>
  The arithmetic operations: the exact result, rounded by \<open>rnd\<close>; NaN is absorbing;
  \<open>inf - inf\<close>, \<open>0 * inf\<close>, \<open>0 / 0\<close> and \<open>inf / inf\<close> are NaN.  \<open>fp_min\<close> and
  \<open>fp_max\<close> are \<open>tf.minimum\<close> and \<open>tf.maximum\<close>, which return NaN when an
  argument is NaN.  \<open>cast_f32\<close> converts a Python float to float32.
\<close>

fun fp_neg :: "fp \<Rightarrow> fp" where
  "fp_neg (Num a) = Num (- a)"
| "fp_neg PInf = NInf"
| "fp_neg NInf = PInf"
| "fp_neg NaN = NaN"

fun fp_add :: "(real \<Rightarrow> fp) \<Rightarrow> fp \<Rightarrow> fp \<Rightarrow> fp" where
  "fp_add rnd (Num a) (Num c) = rnd (a + c)"
| "fp_add rnd NaN v = NaN"
| "fp_add rnd u NaN = NaN"
| "fp_add rnd PInf NInf = NaN"
| "fp_add rnd NInf PInf = NaN"
| "fp_add rnd PInf v = PInf"
| "fp_add rnd u PInf = PInf"
| "fp_add rnd NInf v = NInf"
| "fp_add rnd u NInf = NInf"


fun fp_mul :: "(real \<Rightarrow> fp) \<Rightarrow> fp \<Rightarrow> fp \<Rightarrow> fp" where
  "fp_mul rnd (Num a) (Num c) = rnd (a * c)"
| "fp_mul rnd NaN v = NaN"
| "fp_mul rnd u NaN = NaN"
| "fp_mul rnd PInf (Num c) = (if c = 0 then NaN else if 0 < c then PInf else NInf)"
| "fp_mul rnd NInf (Num c) = (if c = 0 then NaN else if 0 < c then NInf else PInf)"
| "fp_mul rnd (Num a) PInf = (if a = 0 then NaN else if 0 < a then PInf else NInf)"
| "fp_mul rnd (Num a) NInf = (if a = 0 then NaN else if 0 < a then NInf else PInf)"
| "fp_mul rnd PInf PInf = PInf"
| "fp_mul rnd NInf NInf = PInf"
| "fp_mul rnd PInf NInf = NInf"
| "fp_mul rnd NInf PInf = NInf"

fun fp_div :: "(real \<Rightarrow> fp) \<Rightarrow> fp \<Rightarrow> fp \<Rightarrow> fp" where
  "fp_div rnd (Num a) (Num c) =
     (if c = 0 then (if a = 0 then NaN else if 0 < a then PInf else NInf) else rnd (a / c))"
| "fp_div rnd NaN v = NaN"
| "fp_div rnd u NaN = NaN"
| "fp_div rnd (Num a) PInf = Num 0"
| "fp_div rnd (Num a) NInf = Num 0"
| "fp_div rnd PInf (Num c) = (if 0 \<le> c then PInf else NInf)"
| "fp_div rnd NInf (Num c) = (if 0 \<le> c then NInf else PInf)"
| "fp_div rnd PInf PInf = NaN"
| "fp_div rnd PInf NInf = NaN"
| "fp_div rnd NInf PInf = NaN"
| "fp_div rnd NInf NInf = NaN"




text \<open>
  \<open>in_range lo hi v\<close>: the float \<open>v\<close> is a number and lies in \<open>[lo, hi]\<close>.
  \<open>nonneg_fp v\<close>: \<open>v\<close> compares as \<open>v >= 0\<close>, that is, it is a number that is not
  negative or it is \<open>+inf\<close>.
\<close>

definition in_range :: "real \<Rightarrow> real \<Rightarrow> fp \<Rightarrow> bool" where
  "in_range lo hi v = (case v of Num r \<Rightarrow> lo \<le> r \<and> r \<le> hi | PInf \<Rightarrow> False | NInf \<Rightarrow> False | NaN \<Rightarrow> False)"




definition exp_f32 :: "fp \<Rightarrow> fp" where
  "exp_f32 v = (case v of Num a \<Rightarrow> to_f32 (exp a) | PInf \<Rightarrow> PInf | NInf \<Rightarrow> Num 0 | NaN \<Rightarrow> NaN)"

definition exp_like :: "(fp \<Rightarrow> fp) \<Rightarrow> bool" where
  "exp_like kexp \<longleftrightarrow>
     kexp NaN = NaN \<and> (\<forall>v. v \<noteq> NaN \<longrightarrow> kexp v = PInf \<or> in_range 0 (pow2 128) (kexp v))"

section \<open>The loss on float32 tensors\<close>








section \<open>The layer on float32 tensors\<close>

text \<open>
  \<open>SimpleLayer.call\<close>, line 67, on float32 tensors.  \<open>tf.sigmoid\<close>, which its
  documentation defines as \<open>1 / (1 + exp (- z))\<close>, is modelled as that expression with
  every operation rounded to float32.  \<open>tf.matmul\<close> adds the products of a row and a
  column from first to last, starting at 0; the order the kernel uses is not specified.
\<close>

definition sigmoid_f32 :: "(fp \<Rightarrow> fp) \<Rightarrow> fp \<Rightarrow> fp" where
  "sigmoid_f32 kexp v = fp_div to_f32 (Num 1) (fp_add to_f32 (Num 1) (kexp (fp_neg v)))"

record SimpleLayer_f32 =
  units_f32 :: nat
  w_f32 :: "fp tensor option"
  b_f32 :: "fp list option"

definition matmul_f32 :: "fp tensor \<Rightarrow> fp tensor \<Rightarrow> error + fp tensor" where
  "matmul_f32 a c =
     (if ncols a \<noteq> nrows c then Inl ShapeMismatch
      else Inr \<lparr>shape = (nrows a, ncols c),
                rows = map (\<lambda>i. map (\<lambda>j. foldl (\<lambda>s k. fp_add to_f32 s
                                                     (fp_mul to_f32 (rows a ! i ! k) (rows c ! k ! j)))
                                                (Num 0) [0..<ncols a])
                                     [0..<ncols c])
                           [0..<nrows a]\<rparr>)"

definition SimpleLayer_call_f32 ::
    "(fp \<Rightarrow> fp) \<Rightarrow> SimpleLayer_f32 \<Rightarrow> fp tensor \<Rightarrow> error + fp tensor" where
  "SimpleLayer_call_f32 kexp self inputs =
     (case w_f32 self of
        None \<Rightarrow> Inl (AttributeError ''w'')
      | Some wt \<Rightarrow>
          (case matmul_f32 inputs wt of
             Inl e \<Rightarrow> Inl e
           | Inr z \<Rightarrow>
               (case b_f32 self of
                  None \<Rightarrow> Inl (AttributeError ''b'')
                | Some bv \<Rightarrow>
                    (case broadcast2 (fp_add to_f32) z (as_row bv) of
                       Inl e \<Rightarrow> Inl e
                     | Inr s \<Rightarrow> Inr (tmap (sigmoid_f32 kexp) s)))))"


section \<open>Example values\<close>

text \<open>
  The small batch the specification names (\<open>y = [1, 0]\<close>, \<open>p = [0.9, 0.1]\<close>), predictions
  lying exactly on 0 and 1, and a built layer with two inputs and one unit.
\<close>

definition example_labels :: "real tensor" where
  "example_labels = \<lparr>shape = (2, 1), rows = [[1], [0]]\<rparr>"

definition example_predictions :: "real tensor" where
  "example_predictions = \<lparr>shape = (2, 1), rows = [[9 / 10], [1 / 10]]\<rparr>"

definition boundary_predictions :: "real tensor" where
  "boundary_predictions = \<lparr>shape = (2, 1), rows = [[0], [1]]\<rparr>"

definition example_layer :: SimpleLayer where
  "example_layer = \<lparr>units = 1, w = Some \<lparr>shape = (2, 1), rows = [[1], [- 1]]\<rparr>, b = Some [0]\<rparr>"

definition example_inputs :: "real tensor" where
  "example_inputs = \<lparr>shape = (1, 2), rows = [[1, 1]]\<rparr>"

text \<open>
  Objects to run the two steps on.  A metric that keeps the running mean of the single
  values it is fed, and one that keeps the share of predictions which, cut at 0.5, equal
  their label; a plain gradient-descent optimizer that counts its steps; and a
  tape that reports the gradient which the batch \<open>(example_inputs, example_batch_labels)\<close>
  has at the parameters of \<open>example_layer\<close>.
\<close>

definition running_mean :: "string \<Rightarrow> (scalar \<times> nat) metric" where
  "running_mean n =
     \<lparr>name = n, acc = (Finite 0, 0),
      update_state = (\<lambda>a s. case a of
          LossValue v \<Rightarrow> Inr (s_add (fst s) v, snd s + 1)
        | LabelsAndPredictions y y_pred \<Rightarrow> Inl TypeError),
      result = (\<lambda>s. if snd s = 0 then Finite 0 else s_div_count (fst s) (snd s))\<rparr>"

definition threshold_accuracy :: "string \<Rightarrow> (scalar \<times> nat) metric" where
  "threshold_accuracy n =
     \<lparr>name = n, acc = (Finite 0, 0),
      update_state = (\<lambda>a s. case a of
          LossValue v \<Rightarrow> Inl TypeError
        | LabelsAndPredictions y y_pred \<Rightarrow>
            (case broadcast2 (\<lambda>u p. if (if 1 / 2 < p then 1 else 0) = u then 1 else (0 :: real))
                    y y_pred of
               Inl e \<Rightarrow> Inl e
             | Inr t \<Rightarrow>
                 Inr (s_add (fst s) (Finite (sum_list (elements t))),
                      snd s + length (elements t)))),
      result = (\<lambda>s. if snd s = 0 then Finite 0 else s_div_count (fst s) (snd s))\<rparr>"

definition sgd :: "real \<Rightarrow> nat optimizer_obj" where
  "sgd lr =
     \<lparr>opt_state = 0,
      apply_gradients = (\<lambda>g v iterations.
        case broadcast2 (\<lambda>p d. p - lr * d) (fst v) (fst g) of
          Inl e \<Rightarrow> Inl e
        | Inr w' \<Rightarrow>
            if length (snd g) \<noteq> length (snd v) then Inl ShapeMismatch
            else Inr ((w', map2 (\<lambda>p d. p - lr * d) (snd v) (snd g)), iterations + 1))\<rparr>"

definition example_batch_labels :: "real tensor" where
  "example_batch_labels = \<lparr>shape = (1, 1), rows = [[1]]\<rparr>"

definition example_gradient :: gradient_fn where
  "example_gradient l f x y =
     Inr (\<lparr>shape = (2, 1), rows = [[- 1 / (4 * (1 / 2 + default_epsilon))],
                                   [- 1 / (4 * (1 / 2 + default_epsilon))]]\<rparr>,
          [- 1 / (4 * (1 / 2 + default_epsilon))])"

definition example_model :: "(scalar \<times> nat, nat) CustomModel" where
  "example_model =
     \<lparr>layer = example_layer, loss_fn = SimpleLoss_init default_epsilon,
      optimizer = sgd (1 / 100),
      metrics = [running_mean ''loss'', threshold_accuracy ''binary_accuracy'']\<rparr>"

text \<open>
  Draws of one run: the first two training labels drawn as 1.7 and -0.6, every other
  draw of the training set 0.3 for the labels and 0 for the features.
\<close>

definition example_draws :: draws where
  "example_draws =
     \<lparr>normal_x = \<lparr>shape = (1000, 32), rows = replicate 1000 (replicate 32 0)\<rparr>,
      normal_y = \<lparr>shape = (1000, 1),
                  rows = [17 / 10] # [- (3 / 5)] # replicate 998 [3 / 10]\<rparr>,
      uniform_x_test = \<lparr>shape = (10000, 32), rows = replicate 10000 (replicate 32 (1 / 2))\<rparr>,
      uniform_y_test = \<lparr>shape = (10000, 1), rows = replicate 10000 [3 / 4]\<rparr>\<rparr>"


definition example_layer_f32 :: SimpleLayer_f32 where
  "example_layer_f32 =
     \<lparr>units_f32 = 1, w_f32 = Some \<lparr>shape = (2, 1), rows = [[Num 1], [Num (- 1)]]\<rparr>,
      b_f32 = Some [Num 0]\<rparr>"



section \<open>Facts about tensors\<close>

lemma shape_tmap [simp]: "shape (tmap f t) = shape t"
  by (simp add: tmap_def)

lemma rows_tmap [simp]: "rows (tmap f t) = map (map f) (rows t)"
  by (simp add: tmap_def)

lemma well_shaped_tmap [simp]: "well_shaped (tmap f t) = well_shaped t"
  by (simp add: well_shaped_def nrows_def ncols_def list_all_iff)

lemma elements_tmap: "elements (tmap f t) = map f (elements t)"
  by (simp add: elements_def map_concat)

text \<open>Two well-shaped tensors of one shape combine entry by entry, without stretching.\<close>

lemma broadcast2_same_shape:
  assumes "well_shaped a" "well_shaped c" "shape a = shape c"
  shows "broadcast2 f a c = Inr \<lparr>shape = shape a, rows = map2 (map2 f) (rows a) (rows c)\<rparr>"
proof -
  have "map (\<lambda>i. map (\<lambda>j. f (entry a i j) (entry c i j)) [0..<ncols a]) [0..<nrows a]
        = map2 (map2 f) (rows a) (rows c)"
    using assms unfolding well_shaped_def list_all_iff nrows_def ncols_def entry_def
    by (auto intro!: nth_equalityI)
  then show ?thesis
    using assms by (simp add: broadcast2_def bdim_def nrows_def ncols_def)
qed

lemma well_shaped_map2:
  assumes "well_shaped a" "well_shaped c" "shape a = shape c"
  shows "well_shaped \<lparr>shape = shape a, rows = map2 (map2 f) (rows a) (rows c)\<rparr>"
  using assms unfolding well_shaped_def list_all_length nrows_def ncols_def
  by simp

lemma rows_same_lengths:
  assumes "well_shaped a" "well_shaped c" "shape a = shape c"
  shows "length (rows a) = length (rows c)"
    and "\<forall>i<length (rows a). length (rows a ! i) = length (rows c ! i)"
  using assms unfolding well_shaped_def list_all_length nrows_def ncols_def by simp_all

lemma concat_map2_map2:
  assumes "length xss = length yss" "\<forall>i<length xss. length (xss ! i) = length (yss ! i)"
  shows "concat (map2 (map2 f) xss yss) = map2 f (concat xss) (concat yss)"
  using assms
proof (induction xss yss rule: list_induct2)
  case Nil
  then show ?case by simp
next
  case (Cons x xs y ys)
  have "length x = length y"
    using Cons.prems by (auto dest: spec[of _ 0])
  moreover have "\<forall>i<length xs. length (xs ! i) = length (ys ! i)"
    using Cons.prems by (auto dest: spec[of _ "Suc i" for i])
  ultimately show ?case
    using Cons.IH by simp
qed

lemma length_concat_same:
  assumes "length xss = length yss" "\<forall>i<length xss. length (xss ! i) = length (yss ! i)"
  shows "length (concat xss) = length (concat yss)"
  using assms
proof (induction xss yss rule: list_induct2)
  case Nil
  then show ?case by simp
next
  case (Cons x xs y ys)
  have "length x = length y"
    using Cons.prems by (auto dest: spec[of _ 0])
  moreover have "\<forall>i<length xs. length (xs ! i) = length (ys ! i)"
    using Cons.prems by (auto dest: spec[of _ "Suc i" for i])
  ultimately show ?case
    using Cons.IH by simp
qed

lemma elements_same_length:
  assumes "well_shaped a" "well_shaped c" "shape a = shape c"
  shows "length (elements a) = length (elements c)"
  unfolding elements_def using rows_same_lengths[OF assms] by (rule length_concat_same)

lemma map2_same: "map2 f (map g zs) (map h zs) = map (\<lambda>z. f (g z) (h z)) zs"
  by (induction zs) auto

lemma map2_of_maps: "map2 f (map g xs) (map h ys) = map2 (\<lambda>x y. f (g x) (h y)) xs ys"
  by (simp add: zip_map_map case_prod_unfold)

lemma map2_map2_same:
  "map2 f (map2 g xs ys) (map2 h xs ys) = map2 (\<lambda>x y. f (g x y) (h x y)) xs ys"
  by (simp add: map2_same) (simp add: case_prod_unfold)

lemma rows_map2_same:
  "map2 (map2 f) (map2 (map2 g) xss yss) (map2 (map2 h) xss yss) =
   map2 (map2 (\<lambda>x y. f (g x y) (h x y))) xss yss"
  by (simp only: map2_map2_same)

lemma well_shaped_examples:
  "well_shaped example_labels" "well_shaped example_predictions"
  "well_shaped boundary_predictions" "well_shaped example_inputs"
  by (simp_all add: well_shaped_def nrows_def ncols_def example_labels_def
      example_predictions_def boundary_predictions_def example_inputs_def)

section \<open>The loss\<close>

lemma SimpleLoss_call_rows:
  assumes "well_shaped y_true" "well_shaped y_pred" "shape y_true = shape y_pred"
  shows "SimpleLoss_call self y_true y_pred =
    Inr (s_mean (concat (map2 (map2 (\<lambda>y p.
           s_sub (s_mul (Finite (- y))
                    (s_log (clip p (epsilon self) (1 - epsilon self) + epsilon self)))
                 (s_mul (Finite (1 - y))
                    (s_log (1 - clip p (epsilon self) (1 - epsilon self) + epsilon self)))))
         (rows y_true) (rows y_pred))))"
proof -
  let ?eps = "epsilon self"
  let ?F1 = "\<lambda>y p. s_mul (Finite (- y)) (s_log (clip p ?eps (1 - ?eps) + ?eps))"
  let ?F2 = "\<lambda>y p. s_mul (Finite (1 - y)) (s_log (1 - clip p ?eps (1 - ?eps) + ?eps))"
  let ?lhs = "\<lparr>shape = shape y_true, rows = map2 (map2 ?F1) (rows y_true) (rows y_pred)\<rparr>"
  let ?rhs = "\<lparr>shape = shape y_true, rows = map2 (map2 ?F2) (rows y_true) (rows y_pred)\<rparr>"
  have l: "broadcast2 (\<lambda>u l. s_mul (Finite u) l) (tmap uminus y_true)
             (tf_log (first_log_argument self y_pred)) = Inr ?lhs"
    using assms
    by (subst broadcast2_same_shape)
       (simp_all add: tf_log_def first_log_argument_def clipped_pred_def clip_by_value_def
          map2_of_maps)
  have r: "broadcast2 (\<lambda>u l. s_mul (Finite u) l) (tmap (\<lambda>v. 1 - v) y_true)
             (tf_log (second_log_argument self y_pred)) = Inr ?rhs"
    using assms
    by (subst broadcast2_same_shape)
       (simp_all add: tf_log_def second_log_argument_def clipped_pred_def clip_by_value_def
          map2_of_maps)
  have wl: "well_shaped ?lhs"
    using well_shaped_map2[OF assms] .
  have wr: "well_shaped ?rhs"
    using well_shaped_map2[OF assms] .
  have s: "broadcast2 s_sub ?lhs ?rhs =
      Inr \<lparr>shape = shape y_true,
           rows = map2 (map2 (\<lambda>y p. s_sub (?F1 y p) (?F2 y p))) (rows y_true) (rows y_pred)\<rparr>"
    by (subst broadcast2_same_shape[OF wl wr]) (simp_all add: rows_map2_same)
  show ?thesis
    by (simp add: SimpleLoss_call_def l r s reduce_mean_def elements_def)
qed

lemma s_mul_neg: "s_mul (Finite (- y)) l = s_neg (s_mul (Finite y) l)"
  by (cases l) simp_all

lemma SimpleLoss_call_elements:
  assumes "well_shaped y_true" "well_shaped y_pred" "shape y_true = shape y_pred"
  shows "SimpleLoss_call self y_true y_pred =
    Inr (s_mean (map2 (bce_element (epsilon self)) (elements y_true) (elements y_pred)))"
proof -
  have "(\<lambda>y p. s_sub (s_mul (Finite (- y))
                    (s_log (clip p (epsilon self) (1 - epsilon self) + epsilon self)))
                 (s_mul (Finite (1 - y))
                    (s_log (1 - clip p (epsilon self) (1 - epsilon self) + epsilon self))))
        = bce_element (epsilon self)"
    by (intro ext) (simp add: bce_element_def s_mul_neg)
  then show ?thesis
    using SimpleLoss_call_rows[OF assms, of self] rows_same_lengths[OF assms]
    by (simp add: concat_map2_map2 elements_def)
qed

text \<open>
  C1.  For well-shaped tensors \<open>y_true\<close> and \<open>y_pred\<close> of one shape and every
  configured epsilon, \<open>SimpleLoss.call\<close> returns the arithmetic mean, over all elements,
  of \<open>- y_true * log(clip(y_pred, epsilon, 1 - epsilon) + epsilon)
  - (1 - y_true) * log(1 - clip(y_pred, epsilon, 1 - epsilon) + epsilon)\<close>: the
  prediction is clipped first, and epsilon is added inside each logarithm.
\<close>

theorem loss_is_mean_of_closed_form:
  assumes "well_shaped y_true" "well_shaped y_pred" "shape y_true = shape y_pred"
  shows "SimpleLoss_call self y_true y_pred = Inr (mean_bce (epsilon self) y_true y_pred)"
  using SimpleLoss_call_elements[OF assms] by (simp add: mean_bce_def)

theorem loss_is_mean_of_closed_form_witness:
  "well_shaped example_labels \<and> well_shaped example_predictions
   \<and> shape example_labels = shape example_predictions
   \<and> SimpleLoss_call (SimpleLoss_init default_epsilon) example_labels example_predictions
       = Inr (mean_bce default_epsilon example_labels example_predictions)"
proof -
  have sh: "shape example_labels = shape example_predictions"
    by (simp add: example_labels_def example_predictions_def)
  show ?thesis
    using loss_is_mean_of_closed_form[OF well_shaped_examples(1,2) sh,
        of "SimpleLoss_init default_epsilon"]
      well_shaped_examples(1,2) sh
    by (simp add: SimpleLoss_init_def)
qed


lemma clip_bounds:
  assumes "0 < eps" "eps \<le> 1 / 2"
  shows "eps \<le> clip p eps (1 - eps)" "clip p eps (1 - eps) \<le> 1 - eps"
  using assms by (auto simp: clip_def max_def min_def)

lemma log_arguments_in_range:
  assumes "0 < eps" "eps \<le> 1 / 2"
  shows "2 * eps \<le> clip p eps (1 - eps) + eps" "clip p eps (1 - eps) + eps \<le> 1"
        "2 * eps \<le> 1 - clip p eps (1 - eps) + eps" "1 - clip p eps (1 - eps) + eps \<le> 1"
  using clip_bounds[OF assms, of p] by auto

lemma log_arguments_pos:
  assumes "0 < eps" "eps \<le> 1 / 2"
  shows "0 < clip p eps (1 - eps) + eps" "0 < 1 - clip p eps (1 - eps) + eps"
  using log_arguments_in_range[OF assms, of p] assms(1) by linarith+

text \<open>
  In exact arithmetic, for every epsilon with \<open>0 < epsilon \<le> 1/2\<close> and every
  prediction tensor, each element of the two tensors handed to the logarithm lies in
  \<open>[2 * epsilon, 1]\<close>.  On float32 tensors this holds for the default epsilon and fails
  for some others (section \<open>Facts about the loss on float32 tensors\<close>).
\<close>

lemma log_arguments_between_2eps_and_1:
  assumes "0 < epsilon self" "epsilon self \<le> 1 / 2"
  shows "list_all (\<lambda>v. 2 * epsilon self \<le> v \<and> v \<le> 1)
           (elements (first_log_argument self y_pred))
       \<and> list_all (\<lambda>v. 2 * epsilon self \<le> v \<and> v \<le> 1)
           (elements (second_log_argument self y_pred))
       \<and> list_all (\<lambda>v. 0 < v) (elements (first_log_argument self y_pred))
       \<and> list_all (\<lambda>v. 0 < v) (elements (second_log_argument self y_pred))
       \<and> NonFinite \<notin> set (elements (tf_log (first_log_argument self y_pred)))
       \<and> NonFinite \<notin> set (elements (tf_log (second_log_argument self y_pred)))"
  using log_arguments_in_range[OF assms] log_arguments_pos[OF assms]
  by (simp add: first_log_argument_def second_log_argument_def clipped_pred_def
      clip_by_value_def tf_log_def elements_tmap list_all_iff s_log_def image_iff)

lemma log_arguments_between_2eps_and_1_example:
  "0 < epsilon (SimpleLoss_init default_epsilon)
   \<and> epsilon (SimpleLoss_init default_epsilon) \<le> 1 / 2
   \<and> list_all (\<lambda>v. 2 * default_epsilon \<le> v \<and> v \<le> 1)
        (elements (first_log_argument (SimpleLoss_init default_epsilon) boundary_predictions))
   \<and> list_all (\<lambda>v. 2 * default_epsilon \<le> v \<and> v \<le> 1)
        (elements (second_log_argument (SimpleLoss_init default_epsilon) boundary_predictions))
   \<and> NonFinite \<notin> set (elements (tf_log
        (first_log_argument (SimpleLoss_init default_epsilon) boundary_predictions)))
   \<and> NonFinite \<notin> set (elements (tf_log
        (second_log_argument (SimpleLoss_init default_epsilon) boundary_predictions)))"
proof -
  have e: "0 < epsilon (SimpleLoss_init default_epsilon)"
          "epsilon (SimpleLoss_init default_epsilon) \<le> 1 / 2"
    by (simp_all add: SimpleLoss_init_def default_epsilon_def)
  have eq: "epsilon (SimpleLoss_init default_epsilon) = default_epsilon"
    by (simp add: SimpleLoss_init_def)
  show ?thesis
    using log_arguments_between_2eps_and_1[OF e, of boundary_predictions] e
    unfolding eq by blast
qed

lemma foldr_s_add_nonneg:
  assumes "\<forall>s\<in>set xs. \<exists>v. s = Finite v \<and> 0 \<le> v"
  shows "\<exists>v. foldr s_add xs (Finite 0) = Finite v \<and> 0 \<le> v"
  using assms by (induction xs) auto

lemma s_mean_nonneg:
  assumes "xs \<noteq> []" "\<forall>s\<in>set xs. \<exists>v. s = Finite v \<and> 0 \<le> v"
  shows "\<exists>v. s_mean xs = Finite v \<and> 0 \<le> v"
proof -
  obtain v where v: "foldr s_add xs (Finite 0) = Finite v" "0 \<le> v"
    using foldr_s_add_nonneg[OF assms(2)] by blast
  then show ?thesis
    using assms(1) by (simp add: s_mean_def)
qed

lemma bce_element_finite:
  assumes "0 < eps" "eps \<le> 1 / 2"
  shows "bce_element eps y p =
         Finite (- (y * ln (clip p eps (1 - eps) + eps))
                 - (1 - y) * ln (1 - clip p eps (1 - eps) + eps))"
  using log_arguments_pos[OF assms, of p] by (simp add: bce_element_def s_log_def)

lemma bce_element_nonneg:
  assumes "0 < eps" "eps \<le> 1 / 2" "0 \<le> y" "y \<le> 1"
  shows "\<exists>v. bce_element eps y p = Finite v \<and> 0 \<le> v"
proof -
  let ?a = "clip p eps (1 - eps) + eps" and ?c = "1 - clip p eps (1 - eps) + eps"
  have pos: "0 < ?a" "0 < ?c"
    using log_arguments_pos[OF assms(1,2), of p] .
  have "ln ?a \<le> 0" "ln ?c \<le> 0"
    using pos log_arguments_in_range[OF assms(1,2), of p] by (simp_all add: ln_le_zero_iff)
  then have "y * ln ?a \<le> 0" "(1 - y) * ln ?c \<le> 0"
    using assms(3,4) by (simp_all add: mult_nonneg_nonpos)
  then have "0 \<le> - (y * ln ?a) - (1 - y) * ln ?c"
    by linarith
  then show ?thesis
    using bce_element_finite[OF assms(1,2), of y p] by simp
qed

text \<open>
  In exact arithmetic, for every epsilon with \<open>0 < epsilon \<le> 1/2\<close> and every pair of
  well-shaped, equal-shaped, non-empty tensors whose labels lie in \<open>[0, 1]\<close>, the loss is
  a finite number greater than or equal to 0.  What holds on float32 tensors is in section
  \<open>Facts about the loss on float32 tensors\<close>.
\<close>

lemma loss_nonnegative:
  assumes "0 < epsilon self" "epsilon self \<le> 1 / 2"
    and "well_shaped y_true" "well_shaped y_pred" "shape y_true = shape y_pred"
    and "elements y_true \<noteq> []"
    and "list_all (\<lambda>v. 0 \<le> v \<and> v \<le> 1) (elements y_true)"
  shows "\<exists>v. SimpleLoss_call self y_true y_pred = Inr (Finite v) \<and> 0 \<le> v"
proof -
  let ?xs = "map2 (bce_element (epsilon self)) (elements y_true) (elements y_pred)"
  have len: "length (elements y_true) = length (elements y_pred)"
    using elements_same_length[OF assms(3-5)] .
  then have ne: "?xs \<noteq> []"
    using assms(6) by (cases "elements y_true"; cases "elements y_pred") auto
  have "\<forall>s\<in>set ?xs. \<exists>v. s = Finite v \<and> 0 \<le> v"
  proof
    fix s
    assume "s \<in> set ?xs"
    then obtain y p where yp: "(y, p) \<in> set (zip (elements y_true) (elements y_pred))"
      and s: "s = bce_element (epsilon self) y p"
      by auto
    from yp have "y \<in> set (elements y_true)"
      by (rule set_zip_leftD)
    then have "0 \<le> y" "y \<le> 1"
      using assms(7) by (auto simp: list_all_iff)
    then show "\<exists>v. s = Finite v \<and> 0 \<le> v"
      using bce_element_nonneg[OF assms(1,2)] s by blast
  qed
  from s_mean_nonneg[OF ne this] show ?thesis
    using SimpleLoss_call_elements[OF assms(3-5), of self] by simp
qed

lemma loss_nonnegative_example:
  "0 < epsilon (SimpleLoss_init default_epsilon)
   \<and> epsilon (SimpleLoss_init default_epsilon) \<le> 1 / 2
   \<and> well_shaped example_labels \<and> well_shaped example_predictions
   \<and> shape example_labels = shape example_predictions
   \<and> elements example_labels \<noteq> []
   \<and> list_all (\<lambda>v. 0 \<le> v \<and> v \<le> 1) (elements example_labels)
   \<and> (\<exists>v. SimpleLoss_call (SimpleLoss_init default_epsilon) example_labels
              example_predictions = Inr (Finite v) \<and> 0 \<le> v)"
proof -
  have e: "0 < epsilon (SimpleLoss_init default_epsilon)"
          "epsilon (SimpleLoss_init default_epsilon) \<le> 1 / 2"
    by (simp_all add: SimpleLoss_init_def default_epsilon_def)
  have sh: "shape example_labels = shape example_predictions"
    by (simp add: example_labels_def example_predictions_def)
  have ne: "elements example_labels \<noteq> []"
    by (simp add: example_labels_def elements_def)
  have r: "list_all (\<lambda>v. 0 \<le> v \<and> v \<le> 1) (elements example_labels)"
    by (simp add: example_labels_def elements_def)
  show ?thesis
    using loss_nonnegative[OF e well_shaped_examples(1,2) sh ne r]
      e well_shaped_examples(1,2) sh ne r
    by blast
qed


section \<open>The layer\<close>

lemma sigmoid_range: "0 < sigmoid v \<and> sigmoid v < 1"
proof -
  have "0 < exp (- v)"
    by simp
  then have p: "0 < 1 + exp (- v)" and q: "1 < 1 + exp (- v)"
    by linarith+
  have "0 < 1 / (1 + exp (- v))"
    using p by (rule divide_pos_pos[OF zero_less_one])
  moreover have "1 / (1 + exp (- v)) < 1"
    using p q by (subst divide_less_eq_1_pos)
  ultimately show ?thesis
    unfolding sigmoid_def by blast
qed

lemma matmul_shapes:
  assumes "shape x = (N, d)" "shape wt = (d, u)"
  shows "matmul x wt = Inr \<lparr>shape = (N, u),
     rows = map (\<lambda>i. map (\<lambda>j. (\<Sum>k<d. rows x ! i ! k * rows wt ! k ! j)) [0..<u])
                [0..<N]\<rparr>"
  using assms
  by (simp add: matmul_def nrows_def ncols_def interv_sum_list_conv_sum_set_nat
      lessThan_atLeast0)

text \<open>Adding a bias of as many entries as the tensor has columns adds it to every row.\<close>

lemma add_bias:
  assumes "length bv = u"
  shows "broadcast2 (+)
           \<lparr>shape = (N, u), rows = map (\<lambda>i. map (\<lambda>j. f i j) [0..<u]) [0..<N]\<rparr> (as_row bv)
     = Inr \<lparr>shape = (N, u), rows = map (\<lambda>i. map (\<lambda>j. f i j + bv ! j) [0..<u]) [0..<N]\<rparr>"
  using assms
  by (auto simp: broadcast2_def bdim_def nrows_def ncols_def as_row_def entry_def)

text \<open>After \<open>build\<close> the weight has shape \<open>(input_shape[-1], units)\<close> and the bias \<open>units\<close> entries.\<close>

lemma build_allocates:
  assumes "input_shape \<noteq> []"
  shows "\<exists>wt bv self'. SimpleLayer_build glorot self input_shape = Inr self'
           \<and> w self' = Some wt \<and> b self' = Some bv \<and> units self' = units self
           \<and> shape wt = (last input_shape, units self) \<and> well_shaped wt
           \<and> bv = replicate (units self) 0"
  using assms
  by (simp add: SimpleLayer_build_def well_shaped_def nrows_def ncols_def list_all_iff)

lemma example_layer_call:
  "SimpleLayer_call example_layer example_inputs = Inr \<lparr>shape = (1, 1), rows = [[1 / 2]]\<rparr>"
  by (simp add: SimpleLayer_call_def example_layer_def example_inputs_def matmul_def
      nrows_def ncols_def broadcast2_def bdim_def as_row_def entry_def tmap_def sigmoid_def
      numeral_2_eq_2)

text \<open>
  C8.  For an input of shape \<open>(N, input_dim)\<close>, an allocated weight of shape
  \<open>(input_dim, units)\<close> and a bias of shape \<open>(units,)\<close>, \<open>SimpleLayer.call\<close> returns
  \<open>sigmoid(input \<cdot> weight + bias)\<close>, a well-shaped tensor of shape \<open>(N, units)\<close>.  The
  result is a function of the input and the two parameters alone.
\<close>

theorem layer_call_is_affine_sigmoid:
  assumes "w self = Some wt" "b self = Some bv"
    and "shape inputs = (N, d)" "shape wt = (d, u)" "length bv = u"
  shows "SimpleLayer_call self inputs = Inr (affine_sigmoid N d u inputs wt bv)
       \<and> shape (affine_sigmoid N d u inputs wt bv) = (N, u)
       \<and> well_shaped (affine_sigmoid N d u inputs wt bv)"
proof -
  have "SimpleLayer_call self inputs = Inr (affine_sigmoid N d u inputs wt bv)"
    using assms(1,2)
    by (simp add: SimpleLayer_call_def matmul_shapes[OF assms(3,4)] add_bias[OF assms(5)]
        affine_sigmoid_def tmap_def)
  moreover have "well_shaped (affine_sigmoid N d u inputs wt bv)"
    by (simp add: well_shaped_def affine_sigmoid_def nrows_def ncols_def list_all_iff)
  ultimately show ?thesis
    by (simp add: affine_sigmoid_def)
qed

theorem layer_call_is_affine_sigmoid_witness:
  "w example_layer = Some \<lparr>shape = (2, 1), rows = [[1], [- 1]]\<rparr>
   \<and> b example_layer = Some [0]
   \<and> shape example_inputs = (1, 2)
   \<and> SimpleLayer_call example_layer example_inputs
       = Inr (affine_sigmoid 1 2 1 example_inputs \<lparr>shape = (2, 1), rows = [[1], [- 1]]\<rparr> [0])
   \<and> shape (affine_sigmoid 1 2 1 example_inputs \<lparr>shape = (2, 1), rows = [[1], [- 1]]\<rparr> [0])
       = (1, 1)
   \<and> affine_sigmoid 1 2 1 example_inputs \<lparr>shape = (2, 1), rows = [[1], [- 1]]\<rparr> [0]
       = \<lparr>shape = (1, 1), rows = [[1 / 2]]\<rparr>"
proof -
  have h: "w example_layer = Some \<lparr>shape = (2, 1), rows = [[1], [- 1]]\<rparr>"
          "b example_layer = Some [0]"
    by (simp_all add: example_layer_def)
  have i: "shape example_inputs = (1, 2)"
    by (simp add: example_inputs_def)
  have s: "shape \<lparr>shape = (2, 1), rows = [[1], [- 1 :: real]]\<rparr> = (2, 1)"
          "length [0 :: real] = 1"
    by simp_all
  have "SimpleLayer_call example_layer example_inputs
       = Inr (affine_sigmoid 1 2 1 example_inputs \<lparr>shape = (2, 1), rows = [[1], [- 1]]\<rparr> [0])
   \<and> shape (affine_sigmoid 1 2 1 example_inputs \<lparr>shape = (2, 1), rows = [[1], [- 1]]\<rparr> [0])
       = (1, 1)"
    using layer_call_is_affine_sigmoid[OF h i s] by blast
  then show ?thesis
    using h i example_layer_call by simp
qed

text \<open>
  In exact arithmetic every element of an output of \<open>SimpleLayer.call\<close> lies strictly
  between 0 and 1.  On float32 tensors the bounds are attained (section
  \<open>Facts about the layer on float32 tensors\<close>).
\<close>

lemma layer_output_strictly_between_0_and_1:
  assumes "SimpleLayer_call self inputs = Inr out"
  shows "list_all (\<lambda>v. 0 < v \<and> v < 1) (elements out)"
proof -
  from assms obtain s where "out = tmap sigmoid s"
    by (auto simp: SimpleLayer_call_def split: option.splits sum.splits)
  then show ?thesis
    by (simp add: elements_tmap list_all_iff sigmoid_range)
qed

lemma layer_output_strictly_between_0_and_1_example:
  "SimpleLayer_call example_layer example_inputs = Inr \<lparr>shape = (1, 1), rows = [[1 / 2]]\<rparr>
   \<and> list_all (\<lambda>v. 0 < v \<and> v < (1 :: real)) (elements \<lparr>shape = (1, 1), rows = [[1 / 2]]\<rparr>)"
  using layer_output_strictly_between_0_and_1[OF example_layer_call] example_layer_call
  by blast

section \<open>The callback\<close>

lemma on_batch_end_with_loss:
  assumes "logs ''loss'' = Some v"
  shows "on_batch_end i (Some logs) out =
     (Inr (), out @ [[Text ''\<newline>End of batch = '', Number i, Text '', loss = '', Value v]])"
  using assms by (simp add: on_batch_end_def)

text \<open>
  C2, as amended.  For every metrics mapping with no \<open>loss\<close> entry,
  \<open>SimpleCallback.on_batch_end\<close> raises \<open>KeyError('loss')\<close>; it writes nothing, the
  error being raised before \<open>print\<close> is called.
\<close>

theorem on_batch_end_without_loss_raises:
  assumes "logs ''loss'' = None"
  shows "on_batch_end i (Some logs) out = (Inl (KeyError ''loss''), out)"
  using assms by (simp add: on_batch_end_def)

theorem on_batch_end_without_loss_raises_witness:
  "[''binary_accuracy'' \<mapsto> Finite (1 / 2)] ''loss'' = None
   \<and> on_batch_end 0 (Some [''binary_accuracy'' \<mapsto> Finite (1 / 2)]) []
       = (Inl (KeyError ''loss''), [])"
proof -
  have h: "[''binary_accuracy'' \<mapsto> Finite (1 / 2)] ''loss'' = None"
    by simp
  show ?thesis
    using on_batch_end_without_loss_raises[
        where logs = "[''binary_accuracy'' \<mapsto> Finite (1 / 2)]" and i = 0 and out = "[]",
        OF h] h
    by blast
qed

theorem on_batch_end_no_op_counterexample:
  "on_batch_end 0 (Some Map.empty) [] = (Inl (KeyError ''loss''), [])
   \<and> fst (on_batch_end 0 (Some Map.empty) []) \<noteq> Inr ()"
  by (simp add: on_batch_end_def)

section \<open>The two steps\<close>

lemma train_update_metrics_feed:
  "train_update_metrics loss y y_pred ms = feed_metrics loss y y_pred ms"
proof (induction ms)
  case Nil
  then show ?case by (simp add: feed_metrics_def)
next
  case (Cons m ms)
  show ?case
  proof (cases "feed loss y y_pred m")
    case (Inl e)
    then show ?thesis
      by (auto simp: feed_metrics_def feed_def split: sum.splits if_splits)
  next
    case (Inr m')
    then show ?thesis
      using Cons.IH
      by (auto simp: feed_metrics_def feed_def Let_def split: sum.splits if_splits)
  qed
qed

lemma test_update_metrics_feed:
  "test_update_metrics loss y y_pred ms = feed_metrics loss y y_pred ms"
proof (induction ms)
  case Nil
  then show ?case by (simp add: feed_metrics_def)
next
  case (Cons m ms)
  show ?case
  proof (cases "feed loss y y_pred m")
    case (Inl e)
    then show ?thesis
      by (auto simp: feed_metrics_def feed_def split: sum.splits if_splits)
  next
    case (Inr m')
    then show ?thesis
      using Cons.IH
      by (auto simp: feed_metrics_def feed_def Let_def split: sum.splits if_splits)
  qed
qed

lemma name_to_result_Cons:
  "name_to_result (m # ms) = [name m \<mapsto> result m (acc m)] ++ name_to_result ms"
  by (simp add: name_to_result_def map_of_append)

lemma train_results_eq: "train_results ms d = d ++ name_to_result ms"
proof (induction ms arbitrary: d)
  case Nil
  then show ?case by (simp add: name_to_result_def)
next
  case (Cons m ms)
  have "d(name m \<mapsto> result m (acc m)) = d ++ [name m \<mapsto> result m (acc m)]"
    by simp
  then show ?case
    using Cons.IH[of "d(name m \<mapsto> result m (acc m))"]
    by (simp only: train_results.simps name_to_result_Cons map_add_assoc)
qed

lemma test_results_eq: "test_results ms d = d ++ name_to_result ms"
proof (induction ms arbitrary: d)
  case Nil
  then show ?case by (simp add: name_to_result_def)
next
  case (Cons m ms)
  have "d(name m \<mapsto> result m (acc m)) = d ++ [name m \<mapsto> result m (acc m)]"
    by simp
  then show ?case
    using Cons.IH[of "d(name m \<mapsto> result m (acc m))"]
    by (simp only: test_results.simps name_to_result_Cons map_add_assoc)
qed


lemma train_step_metrics:
  assumes "model_call self x True = Inr y_pred" "compute_loss self y y_pred = Inr loss"
    and "trainable_variables self = Inr vars"
    and "tape_gradient (layer self) (loss_fn self) x y = Inr g"
    and "apply_gradients (optimizer self) g vars (opt_state (optimizer self)) = Inr (vars', o')"
  shows "metrics (snd (train_step tape_gradient self (x, y)))
           = snd (feed_metrics loss y y_pred (metrics self))
       \<and> fst (train_step tape_gradient self (x, y))
           = step_outcome loss y y_pred (metrics self)"
proof -
  obtain r ms' where fm: "feed_metrics loss y y_pred (metrics self) = (r, ms')"
    by (cases "feed_metrics loss y y_pred (metrics self)")
  obtain w' b' where v: "vars' = (w', b')"
    by (cases vars')
  show ?thesis
    using assms fm v
    by (cases r)
       (simp_all add: train_step_def step_outcome_def train_update_metrics_feed
          train_results_eq Let_def)
qed

lemma test_step_metrics:
  assumes "model_call self x False = Inr y_pred" "compute_loss self y y_pred = Inr loss"
  shows "metrics (fst (snd (test_step self (x, y) out)))
           = snd (feed_metrics loss y y_pred (metrics self))
       \<and> fst (test_step self (x, y) out) = step_outcome loss y y_pred (metrics self)"
proof -
  obtain r ms' where fm: "feed_metrics loss y y_pred (metrics self) = (r, ms')"
    by (cases "feed_metrics loss y y_pred (metrics self)")
  show ?thesis
    using assms fm
    by (cases r)
       (simp_all add: test_step_def step_outcome_def test_update_metrics_feed
          test_results_eq Let_def)
qed

lemma example_forward:
  "model_call example_model example_inputs True = Inr \<lparr>shape = (1, 1), rows = [[1 / 2]]\<rparr>"
  using example_layer_call by (simp add: model_call_def example_model_def)

lemma example_loss:
  "compute_loss example_model example_batch_labels \<lparr>shape = (1, 1), rows = [[1 / 2]]\<rparr>
     = Inr (s_mean [bce_element default_epsilon 1 (1 / 2)])"
proof -
  have "well_shaped example_batch_labels"
       "well_shaped \<lparr>shape = (1, 1), rows = [[1 / 2 :: real]]\<rparr>"
       "shape example_batch_labels = shape \<lparr>shape = (1, 1), rows = [[1 / 2 :: real]]\<rparr>"
    by (simp_all add: well_shaped_def nrows_def ncols_def example_batch_labels_def)
  from SimpleLoss_call_elements[OF this, of "SimpleLoss_init default_epsilon"]
  show ?thesis
    by (simp add: compute_loss_def example_model_def SimpleLoss_init_def elements_def
        example_batch_labels_def)
qed

lemma example_variables:
  "trainable_variables example_model = Inr (\<lparr>shape = (2, 1), rows = [[1], [- 1]]\<rparr>, [0])"
  by (simp add: trainable_variables_def example_model_def example_layer_def)

lemma example_apply:
  "\<exists>v' o'. apply_gradients (optimizer example_model)
      (\<lparr>shape = (2, 1), rows = [[- 1 / (4 * (1 / 2 + default_epsilon))],
                                [- 1 / (4 * (1 / 2 + default_epsilon))]]\<rparr>,
       [- 1 / (4 * (1 / 2 + default_epsilon))])
      (\<lparr>shape = (2, 1), rows = [[1], [- 1]]\<rparr>, [0])
      (opt_state (optimizer example_model)) = Inr (v', o')"
  by (simp add: example_model_def sgd_def broadcast2_def bdim_def nrows_def ncols_def)

lemma example_outcome:
  "\<exists>d. step_outcome (s_mean [bce_element default_epsilon 1 (1 / 2)]) example_batch_labels
      \<lparr>shape = (1, 1), rows = [[1 / 2]]\<rparr> (metrics example_model) = Inr d"
  by (simp add: step_outcome_def feed_metrics_def feed_def example_model_def running_mean_def
      threshold_accuracy_def example_batch_labels_def broadcast2_def bdim_def nrows_def
      ncols_def Let_def)

text \<open>
  C7.  Whenever the training step gets as far as its metric loop (forward pass, loss,
  gradient and optimizer update succeed), the training step and the evaluation step, run
  on the same model and batch, update the metrics in the same way and return the same
  result: each metric named \<open>loss\<close> is fed the loss, every other one the pair
  \<open>(y, y_pred)\<close>, and the result maps each metric's name to its current result.
\<close>

theorem steps_update_metrics_alike:
  assumes "model_call self x True = Inr y_pred" "compute_loss self y y_pred = Inr loss"
    and "trainable_variables self = Inr vars"
    and "tape_gradient (layer self) (loss_fn self) x y = Inr g"
    and "apply_gradients (optimizer self) g vars (opt_state (optimizer self)) = Inr (vars', o')"
  shows "metrics (snd (train_step tape_gradient self (x, y)))
           = snd (feed_metrics loss y y_pred (metrics self))
       \<and> metrics (fst (snd (test_step self (x, y) out)))
           = snd (feed_metrics loss y y_pred (metrics self))
       \<and> fst (train_step tape_gradient self (x, y)) = step_outcome loss y y_pred (metrics self)
       \<and> fst (test_step self (x, y) out) = step_outcome loss y y_pred (metrics self)"
proof -
  have t: "model_call self x False = Inr y_pred"
    using assms(1) by (simp add: model_call_def)
  have "metrics (snd (train_step tape_gradient self (x, y)))
           = snd (feed_metrics loss y y_pred (metrics self))
       \<and> fst (train_step tape_gradient self (x, y))
           = step_outcome loss y y_pred (metrics self)"
    using assms by (rule train_step_metrics)
  then show ?thesis
    using test_step_metrics[OF t assms(2), of out] by simp
qed

theorem steps_update_metrics_alike_witness:
  "fst (train_step example_gradient example_model (example_inputs, example_batch_labels))
     = fst (test_step example_model (example_inputs, example_batch_labels) [])
   \<and> metrics (snd (train_step example_gradient example_model
                      (example_inputs, example_batch_labels)))
     = metrics (fst (snd (test_step example_model (example_inputs, example_batch_labels) [])))
   \<and> (\<exists>d. fst (train_step example_gradient example_model
                   (example_inputs, example_batch_labels)) = Inr d)"
proof -
  obtain v' o' where ap: "apply_gradients (optimizer example_model)
      (\<lparr>shape = (2, 1), rows = [[- 1 / (4 * (1 / 2 + default_epsilon))],
                                [- 1 / (4 * (1 / 2 + default_epsilon))]]\<rparr>,
       [- 1 / (4 * (1 / 2 + default_epsilon))])
      (\<lparr>shape = (2, 1), rows = [[1], [- 1]]\<rparr>, [0])
      (opt_state (optimizer example_model)) = Inr (v', o')"
    using example_apply by blast
  have gr: "example_gradient (layer example_model) (loss_fn example_model) example_inputs
      example_batch_labels =
      Inr (\<lparr>shape = (2, 1), rows = [[- 1 / (4 * (1 / 2 + default_epsilon))],
                                [- 1 / (4 * (1 / 2 + default_epsilon))]]\<rparr>,
       [- 1 / (4 * (1 / 2 + default_epsilon))])"
    by (simp add: example_gradient_def)
  show ?thesis
    using steps_update_metrics_alike[where tape_gradient = example_gradient and out = "[]",
        OF example_forward example_loss example_variables gr ap]
      example_outcome
    by simp
qed

text \<open>The training step, by contrast, does change the parameters.\<close>

lemma train_step_changes_parameters:
  "layer (snd (train_step example_gradient example_model (example_inputs, example_batch_labels)))
     \<noteq> layer example_model"
proof -
  have g: "- 1 / (4 * (1 / 2 + default_epsilon)) \<noteq> (0 :: real)"
    by (simp add: default_epsilon_def)
  obtain r ms' where fm: "train_update_metrics (s_mean [bce_element default_epsilon 1 (1 / 2)])
      example_batch_labels \<lparr>shape = (1, 1), rows = [[1 / 2]]\<rparr> (metrics example_model) = (r, ms')"
    by (cases "train_update_metrics (s_mean [bce_element default_epsilon 1 (1 / 2)])
      example_batch_labels \<lparr>shape = (1, 1), rows = [[1 / 2]]\<rparr> (metrics example_model)")
  have m: "metrics (example_model\<lparr>layer := la, optimizer := op\<rparr>) = metrics example_model"
    for la op
    by simp
  have "b (layer (snd (train_step example_gradient example_model
            (example_inputs, example_batch_labels))))
        = Some [0 - 1 / 100 * (- 1 / (4 * (1 / 2 + default_epsilon)))]"
    using example_forward example_loss example_variables fm
    by (cases r)
       (simp_all add: train_step_def example_gradient_def Let_def m,
        simp_all add: example_model_def sgd_def broadcast2_def bdim_def nrows_def ncols_def)
  moreover have "b (layer example_model) = Some [0]"
    by (simp add: example_model_def example_layer_def)
  ultimately show ?thesis
    using g by auto
qed

text \<open>
  C4.  For every batch, model state and output so far, \<open>test_step\<close> leaves the layer
  (weight and bias), the optimizer and its state, and the loss unchanged; only the
  metrics and the output change.  The definition of \<open>test_step\<close> takes no gradient
  function and calls no optimizer method.
\<close>

theorem test_step_keeps_parameters:
  "layer (fst (snd (test_step self data out))) = layer self
   \<and> optimizer (fst (snd (test_step self data out))) = optimizer self
   \<and> loss_fn (fst (snd (test_step self data out))) = loss_fn self"
  by (auto simp: test_step_def Let_def split: prod.splits sum.splits option.splits)

section \<open>The driver\<close>

lemma chunks_Nil: "chunks n [] = []"
  by (simp add: chunks.simps)

lemma chunks_step: "0 < n \<Longrightarrow> xs \<noteq> [] \<Longrightarrow> chunks n xs = take n xs # chunks n (drop n xs)"
  by (subst chunks.simps) simp

lemma tf_round_examples:
  "tf_round (17 / 10) = 2" "tf_round (- (3 / 5)) = - 1" "tf_round (3 / 10) = 0"
  by (simp_all add: tf_round_def Let_def)

lemma zip_replicate_left: "n = length ys \<Longrightarrow> zip (replicate n x) ys = map (Pair x) ys"
  by (induction ys arbitrary: n) auto

text \<open>Rounded uniform draws from \<open>[0, 1)\<close>, as the script computes for \<open>y_test\<close>, are 0 or 1.\<close>

lemma tf_round_unit_interval:
  assumes "0 \<le> v" "v < 1"
  shows "tf_round v = 0 \<or> tf_round v = 1"
proof -
  have "\<lfloor>v\<rfloor> = 0"
    using assms by (simp add: floor_eq_iff)
  then show ?thesis
    by (simp add: tf_round_def Let_def)
qed

text \<open>The loss the script compiles has the default epsilon, which lies in \<open>(0, 1/2]\<close>.\<close>

lemma driver_epsilon:
  assumes "main d = Inr r"
  shows "epsilon (compiled_loss r) = default_epsilon"
    and "0 < epsilon (compiled_loss r)" and "epsilon (compiled_loss r) \<le> 1 / 2"
  using assms
  by (auto simp: main_def Let_def SimpleLoss_init_def default_epsilon_def split: sum.splits)

text \<open>
  C3.  The script draws \<open>x_test\<close> and \<open>y_test\<close> but builds the dataset it evaluates
  from \<open>x\<close> and \<open>y\<close>: what \<open>evaluate\<close> receives does not depend on the test draws, and
  is the training features and labels in batches of 512.
\<close>

theorem evaluation_ignores_test_draws:
  "main (d\<lparr>uniform_x_test := a, uniform_y_test := c\<rparr>) = main d
   \<and> map_sum id evaluate_dataset (main d)
     = map_sum id (batch 512) (from_tensor_slices (normal_x d, tmap tf_round (normal_y d)))"
  by (simp add: main_def Let_def split: sum.splits)

lemma example_labels_rounded:
  "tmap tf_round (normal_y example_draws)
     = \<lparr>shape = (1000, 1), rows = [2] # [- 1] # replicate 998 [0]\<rparr>"
  by (simp add: example_draws_def tmap_def tf_round_examples)

lemma example_slices:
  "from_tensor_slices (normal_x example_draws, tmap tf_round (normal_y example_draws))
     = Inr \<lparr>widths = (32, 1),
            examples = (replicate 32 0, [2]) # (replicate 32 0, [- 1])
                        # replicate 998 (replicate 32 0, [0])\<rparr>"
  unfolding example_labels_rounded
  by (simp add: from_tensor_slices_def example_draws_def nrows_def ncols_def
      zip_replicate_left)

lemma example_chunks:
  "chunks 256 ((p :: 'a) # q # replicate 998 r)
     = [p # q # replicate 254 r, replicate 256 r, replicate 256 r, replicate 232 r]"
proof -
  have a: "chunks 256 (p # q # replicate 998 r)
             = (p # q # replicate 254 r) # chunks 256 (replicate 744 r)"
    by (subst chunks_step) simp_all
  have b: "chunks 256 (replicate 744 r) = replicate 256 r # chunks 256 (replicate 488 r)"
    by (subst chunks_step) simp_all
  have c: "chunks 256 (replicate 488 r) = replicate 256 r # chunks 256 (replicate 232 r)"
    by (subst chunks_step) simp_all
  have d: "chunks 256 (replicate 232 r) = [replicate 232 r]"
    by (subst chunks_step) (simp_all add: chunks_Nil)
  show ?thesis
    by (simp only: a b c d)
qed

text \<open>
  C9.  The training labels are rounded draws of a normal distribution, so they are
  integers but need not be 0 or 1: for the draws \<open>example_draws\<close>, whose first two label
  draws are 1.7 and -0.6, the first two labels handed to \<open>fit\<close> are 2 and -1.
\<close>

theorem training_labels_outside_0_1:
  "map_sum id (\<lambda>r. map (\<lambda>xy. rows (snd xy)) (fit_dataset r)) (main example_draws)
     = Inr [[2] # [- 1] # replicate 254 [0], replicate 256 [0], replicate 256 [0],
            replicate 232 [0]]"
  by (simp add: main_def Let_def example_slices batch_def example_chunks)

section \<open>Float32 rounding\<close>

text \<open>
  Powers of two, and the exponent \<open>\<lfloor>log 2 x\<rfloor>\<close> of a positive number.
\<close>

lemma pow2_powr: "pow2 k = 2 powr (real_of_int k)"
proof (cases "0 \<le> k")
  case True
  then have "real_of_int k = real (nat k)" by simp
  then show ?thesis using True by (simp only: pow2_def if_True powr_realpow zero_less_numeral)
next
  case False
  then have k: "real_of_int k = - real (nat (- k))" by simp
  have "(2::real) powr (- real (nat (- k))) = 1 / 2 powr real (nat (- k))"
    by (simp add: powr_minus_divide)
  also have "\<dots> = 1 / 2 ^ nat (- k)"
    by (simp only: powr_realpow zero_less_numeral)
  finally show ?thesis using False by (simp only: pow2_def if_False k)
qed

lemma pow2_pos [simp]: "0 < pow2 k"
  by (simp add: pow2_powr)

lemma pow2_nonneg [simp]: "0 \<le> pow2 k"
  using pow2_pos[of k] by linarith

lemma pow2_not_le_zero [simp]: "\<not> pow2 k \<le> 0"
  using pow2_pos[of k] by linarith

lemma pow2_mono: "k \<le> l \<Longrightarrow> pow2 k \<le> pow2 l"
  by (simp add: pow2_powr)

lemma pow2_add: "pow2 (k + l) = pow2 k * pow2 l"
  by (simp add: pow2_powr powr_add)

lemma pow2_nat: "pow2 (int n) = 2 ^ n"
  by (simp add: pow2_def)

lemma pow2_floor_log:
  assumes "0 < x"
  shows "pow2 \<lfloor>log 2 x\<rfloor> \<le> x" and "x < pow2 (\<lfloor>log 2 x\<rfloor> + 1)"
  using assms floor_log_eq_powr_iff[of x 2 "\<lfloor>log 2 x\<rfloor>"] by (simp_all add: pow2_powr)

lemma floor_log_pow2:
  assumes "pow2 k \<le> x" "x < pow2 (k + 1)"
  shows "\<lfloor>log 2 x\<rfloor> = k"
proof -
  have "0 < x" using assms(1) pow2_pos[of k] by linarith
  then show ?thesis
    using assms floor_log_eq_powr_iff[of x 2 k] by (simp add: pow2_powr)
qed

text \<open>
  Rounding to the nearest integer is monotone and leaves integers as they are.
\<close>

lemma round_half_even_mono: "x \<le> y \<Longrightarrow> round_half_even x \<le> round_half_even y"
proof -
  assume xy: "x \<le> y"
  have f: "\<lfloor>x\<rfloor> \<le> \<lfloor>y\<rfloor>" using xy by (rule floor_mono)
  show ?thesis
  proof (cases "\<lfloor>x\<rfloor> = \<lfloor>y\<rfloor>")
    case True
    then show ?thesis using xy by (auto simp: round_half_even_def Let_def)
  next
    case False
    then have "\<lfloor>x\<rfloor> + 1 \<le> \<lfloor>y\<rfloor>" using f by linarith
    moreover have "round_half_even x \<le> \<lfloor>x\<rfloor> + 1" by (auto simp: round_half_even_def Let_def)
    moreover have "\<lfloor>y\<rfloor> \<le> round_half_even y" by (auto simp: round_half_even_def Let_def)
    ultimately show ?thesis by linarith
  qed
qed

lemma round_half_even_of_int [simp]: "round_half_even (of_int n) = n"
  by (simp add: round_half_even_def)

lemma exponent_bounds:
  assumes "0 < x" "e = max \<lfloor>log 2 x\<rfloor> emin"
  shows "x < pow2 (e + 1)" and "emin < e \<Longrightarrow> pow2 e \<le> x"
proof -
  have "pow2 (\<lfloor>log 2 x\<rfloor> + 1) \<le> pow2 (e + 1)"
    by (rule pow2_mono) (simp add: assms(2))
  with pow2_floor_log(2)[OF assms(1)] show "x < pow2 (e + 1)"
    by linarith
  show "pow2 e \<le> x" if "emin < e"
  proof -
    have "e = \<lfloor>log 2 x\<rfloor>" using that assms(2) by (simp add: max_def split: if_splits)
    then show ?thesis using pow2_floor_log(1)[OF assms(1)] by simp
  qed
qed

lemma round_core_nonneg: "0 \<le> x \<Longrightarrow> 0 \<le> round_core p emin x"
proof -
  assume x: "0 \<le> x"
  have "0 \<le> x / pow2 (quantum p emin x)" using x by simp
  then have "round_half_even 0 \<le> round_half_even (x / pow2 (quantum p emin x))"
    by (rule round_half_even_mono)
  then have "0 \<le> round_half_even (x / pow2 (quantum p emin x))"
    using round_half_even_of_int[of 0] by simp
  then show ?thesis by (simp add: round_core_def)
qed

text \<open>A multiple of the quantum is left as it is.\<close>

lemma round_core_scaled:
  assumes "x \<noteq> 0" "q = quantum p emin x"
  shows "round_core p emin x = of_int (round_half_even (x / pow2 q)) * pow2 q"
  using assms by (simp add: round_core_def)

text \<open>Rounding a positive number stays inside the closure of its binade.\<close>

lemma round_core_binade:
  assumes "0 < x" "0 < p" "e = max \<lfloor>log 2 x\<rfloor> emin"
  shows "round_core p emin x \<le> pow2 (e + 1)"
    and "emin < e \<Longrightarrow> pow2 e \<le> round_core p emin x"
proof -
  define q where "q = quantum p emin x"
  have qe: "e = q + (int p - 1)" using assms by (simp add: quantum_def q_def)
  have rc: "round_core p emin x = of_int (round_half_even (x / pow2 q)) * pow2 q"
    using assms(1) by (simp add: round_core_def q_def)
  have top: "pow2 (e + 1) = of_int (2 ^ p) * pow2 q"
  proof -
    have "e + 1 = int p + q" using qe by simp
    then show ?thesis by (simp add: pow2_add pow2_nat)
  qed
  have bot: "pow2 e = of_int (2 ^ (p - 1)) * pow2 q"
  proof -
    have "e = int (p - 1) + q" using qe assms(2) by (simp add: of_nat_diff)
    then have "pow2 e = pow2 (int (p - 1)) * pow2 q" by (simp only: pow2_add)
    then show ?thesis by (simp add: pow2_nat)
  qed
  have "x \<le> of_int (2 ^ p) * pow2 q"
    using exponent_bounds(1)[OF assms(1,3)] top by linarith
  then have "x / pow2 q \<le> of_int (2 ^ p)"
    by (simp add: pos_divide_le_eq)
  then have "round_half_even (x / pow2 q) \<le> round_half_even (of_int (2 ^ p))"
    by (rule round_half_even_mono)
  then have "real_of_int (round_half_even (x / pow2 q)) \<le> of_int (2 ^ p)"
    by (simp only: round_half_even_of_int of_int_le_iff)
  then have "real_of_int (round_half_even (x / pow2 q)) * pow2 q \<le> of_int (2 ^ p) * pow2 q"
    by (rule mult_right_mono) simp
  then show "round_core p emin x \<le> pow2 (e + 1)"
    by (simp only: rc top)
  show "pow2 e \<le> round_core p emin x" if "emin < e"
  proof -
    have "of_int (2 ^ (p - 1)) * pow2 q \<le> x"
      using exponent_bounds(2)[OF assms(1,3) that] bot by linarith
    then have "of_int (2 ^ (p - 1)) \<le> x / pow2 q"
      by (simp add: pos_le_divide_eq)
    then have "round_half_even (of_int (2 ^ (p - 1))) \<le> round_half_even (x / pow2 q)"
      by (rule round_half_even_mono)
    then have "of_int (2 ^ (p - 1)) \<le> real_of_int (round_half_even (x / pow2 q))"
      by (simp only: round_half_even_of_int of_int_le_iff)
    then have "of_int (2 ^ (p - 1)) * pow2 q \<le> real_of_int (round_half_even (x / pow2 q)) * pow2 q"
      by (rule mult_right_mono) simp
    then show ?thesis
      by (simp only: rc bot)
  qed
qed

text \<open>Rounding is monotone on the non-negative numbers.\<close>

lemma round_core_mono:
  assumes "0 \<le> x" "x \<le> y" "0 < p"
  shows "round_core p emin x \<le> round_core p emin y"
proof (cases "x = 0")
  case True
  then show ?thesis using round_core_nonneg[of y p emin] assms by (simp add: round_core_def)
next
  case False
  then have x: "0 < x" and y: "0 < y" using assms by linarith+
  define ex where "ex = max \<lfloor>log 2 x\<rfloor> emin"
  define ey where "ey = max \<lfloor>log 2 y\<rfloor> emin"
  have "log 2 x \<le> log 2 y" using x assms(2) by simp
  then have "\<lfloor>log 2 x\<rfloor> \<le> \<lfloor>log 2 y\<rfloor>" by (rule floor_mono)
  then have le: "ex \<le> ey" by (simp add: ex_def ey_def max_def)
  show ?thesis
  proof (cases "ex = ey")
    case True
    then have q: "quantum p emin x = quantum p emin y"
      using x y by (simp add: quantum_def ex_def ey_def)
    have "x / pow2 (quantum p emin y) \<le> y / pow2 (quantum p emin y)"
      using assms(2) by (simp add: divide_right_mono)
    then have "round_half_even (x / pow2 (quantum p emin y))
        \<le> round_half_even (y / pow2 (quantum p emin y))"
      by (rule round_half_even_mono)
    then have "real_of_int (round_half_even (x / pow2 (quantum p emin y))) * pow2 (quantum p emin y)
        \<le> real_of_int (round_half_even (y / pow2 (quantum p emin y))) * pow2 (quantum p emin y)"
      by (simp add: mult_right_mono)
    then show ?thesis using x y by (simp add: round_core_def q)
  next
    case False
    then have lt: "ex + 1 \<le> ey" "emin < ey" using le by (simp_all add: ex_def ey_def max_def split: if_splits)
    have "round_core p emin x \<le> pow2 (ex + 1)"
      using round_core_binade(1)[OF x assms(3) ex_def] .
    also have "\<dots> \<le> pow2 ey" using lt(1) by (rule pow2_mono)
    also have "\<dots> \<le> round_core p emin y"
      using round_core_binade(2)[OF y assms(3) ey_def lt(2)] .
    finally show ?thesis .
  qed
qed

lemma round_half_even_minus: "round_half_even (- x) = - round_half_even x"
proof (cases "x \<in> \<int>")
  case True
  then obtain n where "x = of_int n" by (auto elim: Ints_cases)
  then have "round_half_even (- x) = round_half_even (of_int (- n))" by simp
  then show ?thesis using \<open>x = of_int n\<close> by (simp only: round_half_even_of_int)
next
  case False
  have "x \<noteq> of_int \<lfloor>x\<rfloor>"
    using False Ints_of_int[of "\<lfloor>x\<rfloor>"] by metis
  then have lt: "of_int \<lfloor>x\<rfloor> < x"
    using of_int_floor_le[of x] by linarith
  have up: "x < of_int \<lfloor>x\<rfloor> + 1"
    by linarith
  have f: "\<lfloor>- x\<rfloor> = - \<lfloor>x\<rfloor> - 1"
  proof (rule floor_unique)
    show "real_of_int (- \<lfloor>x\<rfloor> - 1) \<le> - x"
      unfolding of_int_diff of_int_minus of_int_1 using up by linarith
    show "- x < real_of_int (- \<lfloor>x\<rfloor> - 1) + 1"
      unfolding of_int_diff of_int_minus of_int_1 using lt by linarith
  qed
  show ?thesis
    using lt up by (auto simp: round_half_even_def Let_def f)
qed

lemma quantum_minus: "quantum p emin (- x) = quantum p emin x"
  by (simp add: quantum_def)

lemma round_core_minus: "round_core p emin (- x) = - round_core p emin x"
  by (simp add: round_core_def quantum_minus round_half_even_minus)

text \<open>The value of a rounding, given the binade of the number.\<close>

lemma round_core_normal:
  assumes "pow2 k \<le> x" "x < pow2 (k + 1)" "emin \<le> k"
  shows "round_core p emin x
           = of_int (round_half_even (x / pow2 (k - (int p - 1)))) * pow2 (k - (int p - 1))"
proof -
  have x: "0 < x" using assms(1) pow2_pos[of k] by linarith
  have "\<lfloor>log 2 x\<rfloor> = k" using assms(1,2) by (rule floor_log_pow2)
  then have "quantum p emin x = k - (int p - 1)"
    using x assms(3) by (simp add: quantum_def)
  then show ?thesis using x by (simp add: round_core_def)
qed


text \<open>
  The float32 and the float64 nearest to a number in the binade \<open>[2 ^ k, 2 ^ (k + 1))\<close>,
  by which the roundings of concrete numbers below are computed.
\<close>

lemma to_f32_normal:
  assumes "pow2 k \<le> x" "x < pow2 (k + 1)" "- 126 \<le> k" "k \<le> 126"
    and "m = round_half_even (x / pow2 (k - 23))"
  shows "to_f32 x = Num (of_int m * pow2 (k - 23))"
proof -
  have r: "round_core 24 (- 126) x = of_int m * pow2 (k - 23)"
    using round_core_normal[OF assms(1,2,3), of 24] assms(5) by simp
  have x: "0 < x" using assms(1) pow2_pos[of k] by linarith
  have "round_core 24 (- 126) x \<le> pow2 (max \<lfloor>log 2 x\<rfloor> (- 126) + 1)"
    by (rule round_core_binade(1)[OF x]) simp_all
  moreover have "\<lfloor>log 2 x\<rfloor> = k" using assms(1,2) by (rule floor_log_pow2)
  ultimately have "round_core 24 (- 126) x \<le> pow2 (k + 1)"
    using assms(3) by (simp add: max_def)
  also have "\<dots> \<le> pow2 127" using assms(4) by (simp add: pow2_mono)
  also have "\<dots> < pow2 128" by (simp add: pow2_def)
  finally have "\<bar>round_core 24 (- 126) x\<bar> < pow2 128"
    using round_core_nonneg[of x 24 "- 126"] x by simp
  then show ?thesis
    by (simp add: to_f32_def round_to_def Let_def r[symmetric])
qed


text \<open>
  Rounding to float32 is monotone: a number between two float32 numbers rounds to a
  float32 number between them.
\<close>

lemma to_f32_Num_iff:
  "to_f32 x = Num r \<longleftrightarrow> round_core 24 (- 126) x = r \<and> \<bar>r\<bar> < pow2 128"
  by (auto simp: to_f32_def round_to_def Let_def)

lemma to_f32_between:
  assumes "0 \<le> a" "a \<le> x" "x \<le> c" "to_f32 a = Num a'" "to_f32 c = Num c'"
  shows "\<exists>r. to_f32 x = Num r \<and> a' \<le> r \<and> r \<le> c'"
proof -
  have a: "round_core 24 (- 126) a = a'" and c: "round_core 24 (- 126) c = c'"
    and b: "\<bar>c'\<bar> < pow2 128"
    using assms(4,5) by (simp_all add: to_f32_Num_iff)
  have 1: "a' \<le> round_core 24 (- 126) x"
    using round_core_mono[OF assms(1,2), of 24 "- 126"] a by simp
  have 2: "round_core 24 (- 126) x \<le> c'"
    using round_core_mono[of x c 24 "- 126"] assms(1,2,3) c by simp
  have 3: "0 \<le> round_core 24 (- 126) x"
    using round_core_nonneg[of x 24 "- 126"] assms(1,2) by simp
  have "\<bar>round_core 24 (- 126) x\<bar> < pow2 128"
    using 2 3 b by linarith
  then show ?thesis
    using 1 2 by (simp add: to_f32_Num_iff)
qed

lemma in_rangeD: "in_range lo hi v \<Longrightarrow> \<exists>r. v = Num r \<and> lo \<le> r \<and> r \<le> hi"
  by (cases v) (simp_all add: in_range_def)

text \<open>
  Some float32 numbers, and numbers too small to be one: what is at most \<open>2 ^ - 151\<close>
  rounds to 0, and 1 plus at most \<open>2 ^ - 24\<close> rounds to 1.
\<close>

lemma to_f32_zero: "to_f32 0 = Num 0"
  by (simp add: to_f32_def round_to_def round_core_def not_le)


lemma to_f32_one: "to_f32 1 = Num 1"
  by (rule trans[OF to_f32_normal[where k = 0 and m = 8388608]])
     (simp_all add: pow2_def round_half_even_def Let_def)


lemma to_f32_cases:
  assumes "0 \<le> x"
  shows "to_f32 x = PInf \<or> (\<exists>r. to_f32 x = Num r \<and> round_core 24 (- 126) x = r \<and> 0 \<le> r)"
  using round_core_nonneg[OF assms, of 24 "- 126"] pow2_pos[of 128]
  by (auto simp: to_f32_def round_to_def Let_def)

lemma round_core_one: "round_core 24 (- 126) 1 = 1"
  using to_f32_one by (simp add: to_f32_Num_iff)

lemma to_f32_minus: "to_f32 (- x) = fp_neg (to_f32 x)"
  by (simp add: to_f32_def round_to_def Let_def round_core_minus)

lemma to_f32_200: "to_f32 200 = Num 200"
  by (rule trans[OF to_f32_normal[where k = 7 and m = 13107200]])
     (simp_all add: pow2_def round_half_even_def Let_def)

lemma to_f32_two: "to_f32 2 = Num 2"
  by (rule trans[OF to_f32_normal[where k = 1 and m = 8388608]])
     (simp_all add: pow2_def round_half_even_def Let_def)

lemma to_f32_half: "to_f32 (1 / 2) = Num (1 / 2)"
  by (rule trans[OF to_f32_normal[where k = "- 1" and m = 8388608]])
     (simp_all add: pow2_def round_half_even_def Let_def)

text \<open>
  The correctly rounded kernels are kernels as \<open>exp_like\<close> and \<open>log_like\<close>
  describe them; \<open>exp 200\<close> overflows float32.
\<close>

lemma exp_200_large: "pow2 128 \<le> exp (200 :: real)"
proof -
  have "(2::real) \<le> exp 1"
    using exp_ge_add_one_self[of "1::real"] by simp
  then have "(2::real) ^ 200 \<le> exp 1 ^ 200"
    by (rule power_mono) simp
  also have "\<dots> = exp (200 :: real)"
    using exp_of_nat_mult[of 200 "1::real"] by simp
  finally have "(2::real) ^ 200 \<le> exp 200" .
  moreover have "pow2 128 \<le> (2::real) ^ 200"
    by (simp add: pow2_def)
  ultimately show ?thesis by linarith
qed

lemma to_f32_exp_200: "to_f32 (exp 200) = PInf"
proof -
  have "round_core 24 (- 126) (pow2 128) = pow2 128"
    using round_core_normal[of 128 "pow2 128" "- 126" 24]
    by (simp add: pow2_def round_half_even_def Let_def)
  moreover have "round_core 24 (- 126) (pow2 128) \<le> round_core 24 (- 126) (exp 200)"
    by (rule round_core_mono) (use exp_200_large in simp_all)
  ultimately have big: "pow2 128 \<le> round_core 24 (- 126) (exp 200)"
    by simp
  have pos: "0 < round_core 24 (- 126) (exp 200)"
    using big pow2_pos[of 128] by linarith
  have "pow2 128 \<le> \<bar>round_core 24 (- 126) (exp 200)\<bar>"
    using big by linarith
  then show ?thesis
    using pos by (simp add: to_f32_def round_to_def Let_def)
qed

lemma exp_like_exp_f32: "exp_like exp_f32"
proof -
  have "exp_f32 v = PInf \<or> in_range 0 (pow2 128) (exp_f32 v)" if "v \<noteq> NaN" for v
  proof (cases v)
    case (Num a)
    have "0 \<le> exp a" by simp
    then consider "to_f32 (exp a) = PInf" | r where "to_f32 (exp a) = Num r" "0 \<le> r"
      using to_f32_cases[of "exp a"] by blast
    then show ?thesis
    proof cases
      case 1
      then show ?thesis by (simp add: exp_f32_def Num)
    next
      case (2 r)
      then have "\<bar>r\<bar> < pow2 128" by (simp add: to_f32_Num_iff)
      then show ?thesis using 2 by (simp add: exp_f32_def Num in_range_def)
    qed
  qed (use that in \<open>simp_all add: exp_f32_def in_range_def\<close>)
  then show ?thesis
    by (simp add: exp_like_def exp_f32_def)
qed














lemma exp_17_large: "(2::real) ^ 24 \<le> exp 17"
proof -
  have "(41 / 32 :: real) \<le> exp (1 / 4)"
    using exp_lower_Taylor_quadratic[of "1 / 4 :: real"] by (simp add: power2_eq_square)
  then have "(41 / 32 :: real) ^ 68 \<le> exp (1 / 4) ^ 68"
    by (rule power_mono) simp
  also have "\<dots> = exp (17 :: real)"
    using exp_of_nat_mult[of 68 "1 / 4 :: real"] by simp
  finally have "(41 / 32 :: real) ^ 68 \<le> exp 17" .
  moreover have "(2::real) ^ 24 \<le> (41 / 32) ^ 68"
    by (simp add: power_divide)
  ultimately show ?thesis by linarith
qed

lemma round_half_even_int_plus:
  assumes "0 \<le> t" "t \<le> 1 / 2" "even n"
  shows "round_half_even (of_int n + t) = n"
proof -
  have f: "\<lfloor>real_of_int n + t\<rfloor> = n"
    using assms(1,2) by (intro floor_unique) simp_all
  show ?thesis
    unfolding round_half_even_def Let_def f using assms by auto
qed

lemma to_f32_one_plus_small:
  assumes "0 \<le> e" "e \<le> 1 / 2 ^ 24"
  shows "to_f32 (1 + e) = Num 1"
proof -
  have "round_half_even (of_int 8388608 + e * 2 ^ 23) = 8388608"
    by (rule round_half_even_int_plus) (use assms in \<open>simp_all add: field_simps\<close>)
  moreover have "(1 + e) / pow2 (0 - 23) = of_int 8388608 + e * 2 ^ 23"
    by (simp add: pow2_def field_simps)
  ultimately have m: "8388608 = round_half_even ((1 + e) / pow2 (0 - 23))"
    by (simp only:)
  have "to_f32 (1 + e) = Num (of_int 8388608 * pow2 (0 - 23))"
    by (rule to_f32_normal[where k = 0, OF _ _ _ _ m])
       (use assms in \<open>simp_all add: pow2_def\<close>)
  then show ?thesis
    by (simp add: pow2_def)
qed

lemma to_f32_17: "to_f32 17 = Num 17"
  by (rule trans[OF to_f32_normal[where k = 4 and m = 8912896]])
     (simp_all add: pow2_def round_half_even_def Let_def)














section \<open>Facts about the loss on float32 tensors\<close>


















































section \<open>Facts about the layer on float32 tensors\<close>

text \<open>
  An exponential that is not negative gives \<open>1 + exp (- z) \<ge> 1\<close> also after
  rounding, and the quotient rounds into \<open>[0, 1]\<close>.
\<close>

lemma sigmoid_f32_range:
  assumes "exp_like kexp"
  shows "sigmoid_f32 kexp v = NaN \<or> in_range 0 1 (sigmoid_f32 kexp v)"
proof (cases "v = NaN")
  case True
  then show ?thesis using assms by (simp add: sigmoid_f32_def exp_like_def)
next
  case False
  then have "fp_neg v \<noteq> NaN" by (cases v) simp_all
  then consider "kexp (fp_neg v) = PInf" | r where "kexp (fp_neg v) = Num r" "0 \<le> r"
    using assms by (auto simp: exp_like_def dest!: in_rangeD)
  then show ?thesis
  proof cases
    case 1
    then show ?thesis by (simp add: sigmoid_f32_def in_range_def)
  next
    case 2
    have "0 \<le> 1 + r" using 2(2) by simp
    then consider "to_f32 (1 + r) = PInf"
      | s where "to_f32 (1 + r) = Num s" "round_core 24 (- 126) (1 + r) = s"
      using to_f32_cases by blast
    then show ?thesis
    proof cases
      case 1
      then show ?thesis using 2(1) by (simp add: sigmoid_f32_def in_range_def)
    next
      case (2 s)
      have "round_core 24 (- 126) 1 \<le> round_core 24 (- 126) (1 + r)"
        by (rule round_core_mono) (use \<open>0 \<le> r\<close> in simp_all)
      then have s: "1 \<le> s" using 2(2) round_core_one by simp
      have "\<exists>t. to_f32 (1 / s) = Num t \<and> 0 \<le> t \<and> t \<le> 1"
        by (rule to_f32_between[OF _ _ _ to_f32_zero to_f32_one]) (use s in simp_all)
      then show ?thesis
        using s 2(1) \<open>kexp (fp_neg v) = Num r\<close>
        by (auto simp: sigmoid_f32_def in_range_def)
    qed
  qed
qed

text \<open>
  C10, as amended.  Whatever the input and the parameters, every element of an output of
  \<open>SimpleLayer.call\<close> on float32 tensors is NaN or a number in the closed interval
  \<open>[0, 1]\<close> (for every exponential kernel that \<open>exp_like\<close> admits).
\<close>

theorem layer_output_f32_in_closed_unit_interval:
  assumes "exp_like kexp" "SimpleLayer_call_f32 kexp self inputs = Inr out"
  shows "list_all (\<lambda>v. v = NaN \<or> in_range 0 1 v) (elements out)"
proof -
  from assms(2) obtain s where "out = tmap (sigmoid_f32 kexp) s"
    by (auto simp: SimpleLayer_call_f32_def split: option.splits sum.splits)
  then show ?thesis
    using sigmoid_f32_range[OF assms(1)] by (simp add: elements_tmap list_all_iff)
qed

lemma example_layer_f32_at_0:
  "SimpleLayer_call_f32 exp_f32 example_layer_f32 \<lparr>shape = (1, 2), rows = [[Num 0, Num 0]]\<rparr>
     = Inr \<lparr>shape = (1, 1), rows = [[Num (1 / 2)]]\<rparr>"
  by (simp add: SimpleLayer_call_f32_def example_layer_f32_def matmul_f32_def nrows_def
      ncols_def broadcast2_def bdim_def as_row_def entry_def tmap_def sigmoid_f32_def
      exp_f32_def numeral_2_eq_2 to_f32_zero to_f32_one to_f32_two to_f32_half)

theorem layer_output_f32_in_closed_unit_interval_witness:
  "exp_like exp_f32
   \<and> SimpleLayer_call_f32 exp_f32 example_layer_f32 \<lparr>shape = (1, 2), rows = [[Num 0, Num 0]]\<rparr>
       = Inr \<lparr>shape = (1, 1), rows = [[Num (1 / 2)]]\<rparr>
   \<and> list_all (\<lambda>v. v = NaN \<or> in_range 0 1 v)
        (elements \<lparr>shape = (1, 1), rows = [[Num (1 / 2)]]\<rparr>)"
  using layer_output_f32_in_closed_unit_interval[OF exp_like_exp_f32 example_layer_f32_at_0]
    exp_like_exp_f32 example_layer_f32_at_0
  by blast

text \<open>
  \<open>exp (- 17)\<close> is below \<open>2 ^ - 24\<close>, half the distance from 1 to the next float32,
  so \<open>1 + exp (- 17)\<close> rounds to 1 and the sigmoid of 17 is exactly 1.  \<open>exp 200\<close>
  overflows, so the sigmoid of -200 is \<open>1 / inf = 0\<close>.
\<close>

lemma sigmoid_f32_at_17: "sigmoid_f32 exp_f32 (Num 17) = Num 1"
proof -
  have "exp (- 17 :: real) \<le> 1 / 2 ^ 24"
    using exp_17_large by (simp add: exp_minus field_simps)
  moreover have t: "to_f32 (1 / 2 ^ 24) = Num (1 / 2 ^ 24)"
    by (rule trans[OF to_f32_normal[where k = "- 24" and m = 8388608]])
       (simp_all add: pow2_def round_half_even_def Let_def)
  ultimately obtain e where e: "to_f32 (exp (- 17)) = Num e" "0 \<le> e" "e \<le> 1 / 2 ^ 24"
    using to_f32_between[OF _ _ _ to_f32_zero t, of "exp (- 17)"] by auto
  show ?thesis
    using to_f32_one_plus_small[OF e(2,3)] e(1)
    by (simp add: sigmoid_f32_def exp_f32_def to_f32_one)
qed

lemma example_layer_f32_at_17:
  "SimpleLayer_call_f32 exp_f32 example_layer_f32 \<lparr>shape = (1, 2), rows = [[Num 17, Num 0]]\<rparr>
     = Inr \<lparr>shape = (1, 1), rows = [[Num 1]]\<rparr>"
proof -
  have "SimpleLayer_call_f32 exp_f32 example_layer_f32
          \<lparr>shape = (1, 2), rows = [[Num 17, Num 0]]\<rparr>
        = Inr \<lparr>shape = (1, 1), rows = [[sigmoid_f32 exp_f32 (Num 17)]]\<rparr>"
    by (simp add: SimpleLayer_call_f32_def example_layer_f32_def matmul_f32_def nrows_def
        ncols_def broadcast2_def bdim_def as_row_def entry_def tmap_def
        numeral_2_eq_2 to_f32_zero to_f32_17)
  then show ?thesis
    by (simp add: sigmoid_f32_at_17)
qed

lemma example_layer_f32_at_200:
  "SimpleLayer_call_f32 exp_f32 example_layer_f32 \<lparr>shape = (1, 2), rows = [[Num 0, Num 200]]\<rparr>
     = Inr \<lparr>shape = (1, 1), rows = [[Num 0]]\<rparr>"
  by (simp add: SimpleLayer_call_f32_def example_layer_f32_def matmul_f32_def nrows_def
      ncols_def broadcast2_def bdim_def as_row_def entry_def tmap_def sigmoid_f32_def
      exp_f32_def numeral_2_eq_2 to_f32_zero to_f32_minus to_f32_200 to_f32_exp_200)

text \<open>
  The bounds are attained: with the weight column \<open>(1, -1)\<close> and the bias 0 the layer
  returns exactly 1 on the input \<open>(17, 0)\<close> and exactly 0 on \<open>(0, 200)\<close>.  The output
  lies strictly between 0 and 1 in exact arithmetic only.
\<close>

theorem layer_output_f32_saturates_counterexample:
  "SimpleLayer_call_f32 exp_f32 example_layer_f32 \<lparr>shape = (1, 2), rows = [[Num 17, Num 0]]\<rparr>
     = Inr \<lparr>shape = (1, 1), rows = [[Num 1]]\<rparr>
   \<and> SimpleLayer_call_f32 exp_f32 example_layer_f32
        \<lparr>shape = (1, 2), rows = [[Num 0, Num 200]]\<rparr>
     = Inr \<lparr>shape = (1, 1), rows = [[Num 0]]\<rparr>"
  using example_layer_f32_at_17 example_layer_f32_at_200 by (rule conjI)

end
